theory Spec2Isabelle
  imports Complex_Main "HOL-Library.Product_Lexorder"
begin

section \<open>Python values used by the feed\<close>

text \<open>
  The exceptions that the modelled code can raise. \<open>NotImplementedError\<close> is raised by
  the store itself; the others come from the \<open>datetime\<close> module and from \<open>deque.popleft\<close>.
\<close>

datatype error = NotImplementedError | ValueError | OverflowError | IndexError

subsection \<open>Times of day and naive datetimes\<close>

text \<open>
  \<open>datetime.time\<close> and a naive \<open>datetime.datetime\<close>. Python compares both field by
  field, most significant first; the keys below are compared lexicographically.
\<close>

datatype time = Time (hour: int) (minute: int) (second: int) (microsecond: int)

datatype datetime = Datetime (year: int) (month: int) (day: int) (dt_time: time)

definition time_key :: "time \<Rightarrow> int \<times> int \<times> int \<times> int" where
  "time_key t = (hour t, minute t, second t, microsecond t)"

definition time_less :: "time \<Rightarrow> time \<Rightarrow> bool" where
  "time_less a b = (time_key a < time_key b)"

definition dt_key :: "datetime \<Rightarrow> int \<times> int \<times> int \<times> int \<times> int \<times> int \<times> int" where
  "dt_key d = (year d, month d, day d, time_key (dt_time d))"

definition dt_less :: "datetime \<Rightarrow> datetime \<Rightarrow> bool" where
  "dt_less a b = (dt_key a < dt_key b)"

definition dt_le :: "datetime \<Rightarrow> datetime \<Rightarrow> bool" where
  "dt_le a b = (dt_key a \<le> dt_key b)"

text \<open>\<open>time.min\<close>, \<open>datetime.min\<close> and the host's default session end \<open>time(23, 59, 59, 999990)\<close>.\<close>

definition time_min :: time where
  "time_min = Time 0 0 0 0"

definition datetime_min :: datetime where
  "datetime_min = Datetime 1 1 1 time_min"

definition sessionend_unset :: time where
  "sessionend_unset = Time 23 59 59 999990"

subsection \<open>The proleptic Gregorian calendar of the datetime module\<close>

definition is_leap :: "int \<Rightarrow> bool" where
  "is_leap y = (y mod 4 = 0 \<and> (y mod 100 \<noteq> 0 \<or> y mod 400 = 0))"

definition days_in_month :: "int \<Rightarrow> int \<Rightarrow> int" where
  "days_in_month y m =
     (if m = 2 then (if is_leap y then 29 else 28)
      else if m = 4 \<or> m = 6 \<or> m = 9 \<or> m = 11 then 30 else 31)"

definition days_before_year :: "int \<Rightarrow> int" where
  "days_before_year y = (y - 1) * 365 + (y - 1) div 4 - (y - 1) div 100 + (y - 1) div 400"

definition days_before_month :: "int \<Rightarrow> int \<Rightarrow> int" where
  "days_before_month y m = sum_list (map (days_in_month y) [1..m - 1])"

definition ymd2ord :: "int \<Rightarrow> int \<Rightarrow> int \<Rightarrow> int" where
  "ymd2ord y m d = days_before_year y + days_before_month y m + d"

text \<open>The inverse, following the 400/100/4/1-year cycles as the library does.\<close>

definition ord2ymd :: "int \<Rightarrow> int \<times> int \<times> int" where
  "ord2ymd n0 =
     (let n = n0 - 1;
          n400 = n div 146097; n = n mod 146097;
          n100 = n div 36524; n = n mod 36524;
          n4 = n div 1461; n = n mod 1461;
          n1 = n div 365; n = n mod 365;
          y = n400 * 400 + 1 + n100 * 100 + n4 * 4 + n1
      in if n1 = 4 \<or> n100 = 4 then (y - 1, 12, 31)
         else
           let m = (n + 50) div 32;
               m = (if days_before_month y m > n then m - 1 else m)
           in (y, m, n - days_before_month y m + 1))"

definition max_ordinal :: int where
  "max_ordinal = 3652059"

text \<open>
  The constructor \<open>datetime(year, month, day, hour, minute, second, microsecond)\<close>
  with its range checks. The arguments are first read as C integers, which raises
  \<open>OverflowError\<close> for a value that does not fit; a value that fits but lies outside the
  field's range raises \<open>ValueError\<close>.
\<close>

definition fits_c_int :: "int \<Rightarrow> bool" where
  "fits_c_int x = (- 2147483648 \<le> x \<and> x \<le> 2147483647)"

definition datetime_new :: "int \<Rightarrow> int \<Rightarrow> int \<Rightarrow> int \<Rightarrow> int \<Rightarrow> int \<Rightarrow> int \<Rightarrow> error + datetime" where
  "datetime_new y m d h mi s us =
     (if \<not> (fits_c_int y \<and> fits_c_int m \<and> fits_c_int d \<and> fits_c_int h \<and> fits_c_int mi
             \<and> fits_c_int s \<and> fits_c_int us)
      then Inl OverflowError
      else if 1 \<le> y \<and> y \<le> 9999 \<and> 1 \<le> m \<and> m \<le> 12 \<and> 1 \<le> d \<and> d \<le> days_in_month y m
         \<and> 0 \<le> h \<and> h \<le> 23 \<and> 0 \<le> mi \<and> mi \<le> 59 \<and> 0 \<le> s \<and> s \<le> 59
         \<and> 0 \<le> us \<and> us \<le> 999999
      then Inr (Datetime y m d (Time h mi s us)) else Inl ValueError)"

text \<open>\<open>dt.replace(year=y)\<close> builds a new datetime and so repeats the checks.\<close>

definition replace_year :: "datetime \<Rightarrow> int \<Rightarrow> error + datetime" where
  "replace_year d y =
     datetime_new y (month d) (day d) (hour (dt_time d)) (minute (dt_time d))
       (second (dt_time d)) (microsecond (dt_time d))"

subsection \<open>Durations\<close>

text \<open>
  A \<open>timedelta\<close> is kept normalised as days, seconds (below 86400) and microseconds
  (below 1000000); the constructor raises \<open>OverflowError\<close> beyond 999999999 days.
\<close>

datatype timedelta = Timedelta (td_days: int) (td_seconds: int) (td_microseconds: int)

definition us_per_day :: int where
  "us_per_day = 86400000000"

definition timedelta_of_us :: "int \<Rightarrow> error + timedelta" where
  "timedelta_of_us us =
     (let d = us div us_per_day; r = us mod us_per_day
      in if - 999999999 \<le> d \<and> d \<le> 999999999
         then Inr (Timedelta d (r div 1000000) (r mod 1000000)) else Inl OverflowError)"

definition timedelta_days :: "int \<Rightarrow> error + timedelta" where
  "timedelta_days n = timedelta_of_us (n * us_per_day)"

definition timedelta_weeks :: "int \<Rightarrow> error + timedelta" where
  "timedelta_weeks n = timedelta_of_us (n * 7 * us_per_day)"

definition timedelta_minutes :: "int \<Rightarrow> error + timedelta" where
  "timedelta_minutes n = timedelta_of_us (n * 60000000)"

definition timedelta_seconds :: "int \<Rightarrow> error + timedelta" where
  "timedelta_seconds n = timedelta_of_us (n * 1000000)"

definition td_total_us :: "timedelta \<Rightarrow> int" where
  "td_total_us td = td_days td * us_per_day + td_seconds td * 1000000 + td_microseconds td"

definition time_of_us :: "int \<Rightarrow> time" where
  "time_of_us r = Time (r div 3600000000) (r div 60000000 mod 60) (r div 1000000 mod 60) (r mod 1000000)"

definition us_of_time :: "time \<Rightarrow> int" where
  "us_of_time t = ((hour t * 60 + minute t) * 60 + second t) * 1000000 + microsecond t"

definition datetime_of_us :: "int \<Rightarrow> datetime" where
  "datetime_of_us tus =
     (case ord2ymd (tus div us_per_day) of
        (y, m, d) \<Rightarrow> Datetime y m d (time_of_us (tus mod us_per_day)))"

text \<open>\<open>dt + td\<close>: \<open>OverflowError\<close> when the result leaves the years 1 to 9999.\<close>

definition dt_add :: "datetime \<Rightarrow> timedelta \<Rightarrow> error + datetime" where
  "dt_add d td =
     (let tus = ymd2ord (year d) (month d) (day d) * us_per_day + us_of_time (dt_time d)
                    + td_total_us td;
          days = tus div us_per_day
      in if 0 < days \<and> days \<le> max_ordinal then Inr (datetime_of_us tus)
         else Inl OverflowError)"

text \<open>
  \<open>datetime.utcfromtimestamp(ts)\<close> for an integer number of seconds. Outside the
  supported years the library raises; which exception class it is depends on the
  platform, and the model uses \<open>ValueError\<close>.
\<close>

definition utcfromtimestamp :: "int \<Rightarrow> error + datetime" where
  "utcfromtimestamp ts =
     (let tus = (719163 * 86400 + ts) * 1000000;
          days = tus div us_per_day
      in if 0 < days \<and> days \<le> max_ordinal then Inr (datetime_of_us tus)
         else Inl ValueError)"

section \<open>Store: conversion of time frames\<close>

text \<open>The host's \<open>TimeFrame\<close> enumeration.\<close>

datatype TimeFrame =
  Ticks | MicroSeconds | Seconds | Minutes | Days | Weeks | Months | Years | NoTimeFrame

text \<open>\<open>Store.timeframe_to_timedelta\<close>.\<close>

definition timeframe_to_timedelta :: "TimeFrame \<Rightarrow> int \<Rightarrow> error + timedelta" where
  "timeframe_to_timedelta timeframe compression =
     (if timeframe = Days then timedelta_days 1
      else if timeframe = Weeks then timedelta_weeks 1
      else if timeframe = Months then Inl NotImplementedError
      else if timeframe = Years then Inl NotImplementedError
      else if timeframe = Minutes then timedelta_minutes compression
      else timedelta_seconds compression)"

section \<open>Store: the notification queue and the inbox of new bars\<close>

text \<open>
  A raw bar as the broker's client delivers it: the opening time in seconds since the
  epoch, four prices and the volume.
\<close>

record bar =
  bar_time :: int
  bar_open :: real
  bar_high :: real
  bar_low :: real
  bar_close :: real
  bar_volume :: int

text \<open>
  An element of \<open>Store.new_bars\<close>, the dictionary
  \<open>dict(provider_name=n, response=dict(guid=g, data=bar))\<close>.
\<close>

record entry =
  entry_provider_name :: string
  response_guid :: string
  response_data :: bar

text \<open>
  The store's state: the deque \<open>notifs\<close>, whose elements are notification tuples or the
  sentinel \<open>None\<close> that a drain appends, and the list \<open>new_bars\<close>.
\<close>

record 'n Store =
  notifs :: "'n option list"
  new_bars :: "entry list"

text \<open>\<open>Store.put_notification\<close>: the tuple \<open>(msg, args, kwargs)\<close> is the value \<open>m\<close>.\<close>

definition put_notification :: "'n \<Rightarrow> 'n Store \<Rightarrow> 'n Store" where
  "put_notification m st = st\<lparr>notifs := notifs st @ [Some m]\<rparr>"

text \<open>
  The iteration \<open>iter(self.notifs.popleft, None)\<close>: pop from the left until the popped
  value is \<open>None\<close>. Other threads may append while the iteration runs: the first
  argument lists, for each \<open>popleft\<close> in turn, the notifications that arrive just before
  it. \<open>popleft\<close> on an empty deque raises \<open>IndexError\<close>.
\<close>

function popleft_until_None :: "'n list list \<Rightarrow> 'n option list \<Rightarrow> error + ('n list \<times> 'n option list)" where
  "popleft_until_None arriving q =
     (case q @ map Some (case arriving of [] \<Rightarrow> [] | a # _ \<Rightarrow> a) of
        [] \<Rightarrow> Inl IndexError
      | None # rest \<Rightarrow> Inr ([], rest)
      | Some x # rest \<Rightarrow>
          (case popleft_until_None (tl arriving) rest of
             Inl e \<Rightarrow> Inl e
           | Inr (xs, q') \<Rightarrow> Inr (x # xs, q')))"
  by pat_completeness auto
termination
  apply (relation "measure (\<lambda>(arriving, q). length q + sum_list (map length arriving))")
   apply simp
  subgoal premises prems for arriving q h rest x
  proof -
    have "length (q @ map Some (case arriving of [] \<Rightarrow> [] | a # _ \<Rightarrow> a)) = Suc (length rest)"
      by (simp only: prems length_Cons)
    then show ?thesis
      by (cases arriving) auto
  qed
  done

declare popleft_until_None.simps [simp del]

text \<open>\<open>Store.get_notifications\<close>: append the sentinel, then drain up to it.\<close>

definition get_notifications :: "'n list list \<Rightarrow> 'n Store \<Rightarrow> error + ('n list \<times> 'n Store)" where
  "get_notifications arriving st =
     (case popleft_until_None arriving (notifs st @ [None]) of
        Inl e \<Rightarrow> Inl e
      | Inr (xs, q') \<Rightarrow> Inr (xs, st\<lparr>notifs := q'\<rparr>))"

section \<open>Data: the feed\<close>

text \<open>
  The feed's parameters. \<open>schedule\<close> records only whether a schedule object was given;
  \<open>sessionstart\<close> and \<open>sessionend\<close> are the host's session bounds, with \<open>time.min\<close> and
  \<open>time(23, 59, 59, 999990)\<close> standing for "not set".
\<close>

record params =
  timeframe :: TimeFrame
  compression :: int
  four_price_doji :: bool
  schedule :: bool
  live_bars :: bool
  sessionstart :: time
  sessionend :: time

text \<open>
  The broker's client is not part of the feed: the two conversions the feed calls are
  parameters. The exchange and the symbol are fixed for one feed, so the price conversion
  takes the raw price only.
\<close>

record provider =
  alor_price_to_price :: "real \<Rightarrow> real"
  utc_timestamp_to_msk_datetime :: "int \<Rightarrow> error + datetime"

text \<open>
  What the two clocks show when they are read: \<open>provider.get_time()\<close> and
  \<open>datetime.now(tz_msk).replace(tzinfo=None)\<close>.
\<close>

record clock =
  get_time :: int
  now_msk :: datetime

text \<open>The statuses of the host's feeds.\<close>

datatype status =
  CONNECTED | DISCONNECTED | CONNBROKEN | DELAYED | LIVE | NOTSUBSCRIBED | NOTSUPPORTED_TF | UNKNOWN

text \<open>
  The output record \<open>self.lines\<close> at index 0. The host's \<open>date2num\<close> is not applied: the
  datetime itself is kept.
\<close>

record lines =
  lines_datetime :: datetime
  lines_open :: real
  lines_high :: real
  lines_low :: real
  lines_close :: real
  lines_volume :: int
  lines_openinterest :: int

text \<open>
  The attributes of a \<open>Data\<close> object that \<open>start\<close>, \<open>_load\<close> and \<open>stop\<close> read or write.
  \<open>put_notifications\<close> is the sequence of statuses passed to the host's
  \<open>put_notification\<close>, oldest first; \<open>cur_lines\<close> is the output record, empty until
  the first bar is written.
\<close>

record Data =
  provider_name :: string
  history_bars :: "bar list"
  guid :: "string option"
  dt_last_open :: datetime
  last_bar_received :: bool
  live_mode :: bool
  put_notifications :: "status list"
  cur_lines :: "lines option"

text \<open>The attributes as \<open>Data.__init__\<close> sets them.\<close>

definition Data_init :: "string \<Rightarrow> Data" where
  "Data_init name =
     \<lparr>provider_name = name, history_bars = [], guid = None, dt_last_open = datetime_min,
      last_bar_received = False, live_mode = False, put_notifications = [], cur_lines = None\<rparr>"

definition data_put_notification :: "status \<Rightarrow> Data \<Rightarrow> Data" where
  "data_put_notification s self = self\<lparr>put_notifications := put_notifications self @ [s]\<rparr>"

subsection \<open>Functions of the feed\<close>

definition get_bar_open_date_time :: "params \<Rightarrow> provider \<Rightarrow> bar \<Rightarrow> error + datetime" where
  "get_bar_open_date_time p prov b =
     (if timeframe p = Minutes \<or> timeframe p = Seconds
      then utc_timestamp_to_msk_datetime prov (bar_time b)
      else utcfromtimestamp (bar_time b))"

definition add_timedelta :: "datetime \<Rightarrow> error + timedelta \<Rightarrow> error + datetime" where
  "add_timedelta d r = (case r of Inl e \<Rightarrow> Inl e | Inr td \<Rightarrow> dt_add d td)"

definition get_bar_close_date_time :: "params \<Rightarrow> datetime \<Rightarrow> int \<Rightarrow> error + datetime" where
  "get_bar_close_date_time p dt_open period =
     (if timeframe p = Days then add_timedelta dt_open (timedelta_days period)
      else if timeframe p = Weeks then add_timedelta dt_open (timedelta_weeks period)
      else if timeframe p = Months then
        (let y = year dt_open + (month dt_open + period - 1) div 12;
             m = (month dt_open + period - 1) mod 12 + 1
         in datetime_new y m 1 0 0 0 0)
      else if timeframe p = Years then replace_year dt_open (year dt_open + period)
      else if timeframe p = Minutes
        then add_timedelta dt_open (timedelta_minutes (compression p * period))
      else add_timedelta dt_open (timedelta_seconds (compression p * period)))"

definition get_alor_date_time_now :: "provider \<Rightarrow> clock \<Rightarrow> Data \<Rightarrow> error + datetime" where
  "get_alor_date_time_now prov clk self =
     (if last_bar_received self then utc_timestamp_to_msk_datetime prov (get_time clk)
      else Inr (now_msk clk))"

definition is_bar_valid :: "params \<Rightarrow> provider \<Rightarrow> clock \<Rightarrow> Data \<Rightarrow> bar \<Rightarrow> error + bool" where
  "is_bar_valid p prov clk self b =
     (case get_bar_open_date_time p prov b of
        Inl e \<Rightarrow> Inl e
      | Inr dt_open \<Rightarrow>
          if sessionstart p \<noteq> time_min \<and> time_less (dt_time dt_open) (sessionstart p)
          then Inr False
          else
            (case get_bar_close_date_time p dt_open 1 of
               Inl e \<Rightarrow> Inl e
             | Inr dt_close \<Rightarrow>
                 if sessionend p \<noteq> sessionend_unset \<and> time_less (sessionend p) (dt_time dt_close)
                 then Inr False
                 else if \<not> four_price_doji p
                         \<and> alor_price_to_price prov (bar_high b) = alor_price_to_price prov (bar_low b)
                 then Inr False
                 else
                   (case get_alor_date_time_now prov clk self of
                      Inl e \<Rightarrow> Inl e
                    | Inr time_market_now \<Rightarrow>
                        if dt_less time_market_now dt_close
                           \<and> time_less (dt_time time_market_now) (sessionend p)
                        then Inr False
                        else Inr True)))"

subsection \<open>start, load and stop\<close>

text \<open>
  The loop of \<open>start\<close> over the fetched history. Each bar comes with the clock as it is
  read while that bar is checked. An exception leaves the bars appended so far in place.
\<close>

fun append_valid_bars :: "params \<Rightarrow> provider \<Rightarrow> (bar \<times> clock) list \<Rightarrow> Data \<Rightarrow> error option \<times> Data" where
  "append_valid_bars p prov [] self = (None, self)"
| "append_valid_bars p prov ((b, clk) # rest) self =
     (case is_bar_valid p prov clk self b of
        Inl e \<Rightarrow> (Some e, self)
      | Inr ok \<Rightarrow>
          append_valid_bars p prov rest
            (if ok then self\<lparr>history_bars := history_bars self @ [b]\<rparr> else self))"

text \<open>
  \<open>Data.start\<close>. The calls to the broker's client are inputs: \<open>fetched\<close> is the list
  \<open>get_history(...)["history"]\<close> and \<open>new_guid\<close> is the identifier that \<open>uuid4().hex\<close>
  or \<open>bars_get_and_subscribe\<close> returns. The result is the exception raised, if any, and
  the attributes as the call leaves them.
\<close>

definition start :: "params \<Rightarrow> provider \<Rightarrow> (bar \<times> clock) list \<Rightarrow> string \<Rightarrow> Data \<Rightarrow> error option \<times> Data" where
  "start p prov fetched new_guid self0 =
     (let self = data_put_notification DELAYED self0
      in if \<not> live_bars p then
           (case append_valid_bars p prov fetched self of
              (Some e, self') \<Rightarrow> (Some e, self')
            | (None, self') \<Rightarrow>
                if length (history_bars self') > 0
                then (None, data_put_notification CONNECTED self')
                else (None, self'))
         else (None, data_put_notification CONNECTED (self\<lparr>guid := Some new_guid\<rparr>)))"

text \<open>What a call of \<open>_load\<close> does: it returns \<open>True\<close>, \<open>False\<close> or \<open>None\<close>, or it raises.\<close>

datatype outcome = Returned "bool option" | Raised error

text \<open>The output record for a bar whose opening datetime is \<open>dt\<close>.\<close>

definition bar_lines :: "provider \<Rightarrow> bar \<Rightarrow> datetime \<Rightarrow> lines" where
  "bar_lines prov b dt =
     \<lparr>lines_datetime = dt,
      lines_open = alor_price_to_price prov (bar_open b),
      lines_high = alor_price_to_price prov (bar_high b),
      lines_low = alor_price_to_price prov (bar_low b),
      lines_close = alor_price_to_price prov (bar_close b),
      lines_volume = bar_volume b,
      lines_openinterest = 0\<rparr>"

text \<open>The last lines of \<open>_load\<close>: write the bar to the output record and return \<open>True\<close>.\<close>

definition write_lines :: "params \<Rightarrow> provider \<Rightarrow> bar \<Rightarrow> Data \<Rightarrow> outcome \<times> Data" where
  "write_lines p prov b self =
     (case get_bar_open_date_time p prov b of
        Inl e \<Rightarrow> (Raised e, self)
      | Inr dt \<Rightarrow> (Returned (Some True), self\<lparr>cur_lines := Some (bar_lines prov b dt)\<rparr>))"

text \<open>An inbox entry belongs to this feed.\<close>

definition is_own :: "Data \<Rightarrow> entry \<Rightarrow> bool" where
  "is_own self b = (entry_provider_name b = provider_name self \<and> Some (response_guid b) = guid self)"

text \<open>The change of mode after a new bar has been accepted.\<close>

definition switch_mode :: "Data \<Rightarrow> Data" where
  "switch_mode self =
     (if last_bar_received self \<and> \<not> live_mode self
      then (data_put_notification LIVE self)\<lparr>live_mode := True\<rparr>
      else if live_mode self \<and> \<not> last_bar_received self
      then (data_put_notification DELAYED self)\<lparr>live_mode := False\<rparr>
      else self)"

text \<open>\<open>Data._load\<close>, with the feed's attributes and the store passed in and returned.\<close>

definition load :: "params \<Rightarrow> provider \<Rightarrow> clock \<Rightarrow> Data \<times> 'n Store \<Rightarrow> outcome \<times> Data \<times> 'n Store" where
  "load p prov clk s =
     (case s of (self, store) \<Rightarrow>
      if \<not> live_bars p then
        (case history_bars self of
           [] \<Rightarrow> (Returned (Some False), data_put_notification DISCONNECTED self, store)
         | b # _ \<Rightarrow>
             (case write_lines p prov b (self\<lparr>history_bars := remove1 b (history_bars self)\<rparr>) of
                (r, self') \<Rightarrow> (r, self', store)))
      else if length (new_bars store) = 0 then (Returned None, self, store)
      else
        (case filter (is_own self) (new_bars store) of
           [] \<Rightarrow> (Returned None, self, store)
         | new_bar # others \<Rightarrow>
             (let self1 = self\<lparr>last_bar_received := (length (new_bar # others) = 1)\<rparr>;
                  store1 = store\<lparr>new_bars := remove1 new_bar (new_bars store)\<rparr>;
                  b = response_data new_bar
              in case is_bar_valid p prov clk self1 b of
                   Inl e \<Rightarrow> (Raised e, self1, store1)
                 | Inr False \<Rightarrow> (Returned None, self1, store1)
                 | Inr True \<Rightarrow>
                     (case get_bar_open_date_time p prov b of
                        Inl e \<Rightarrow> (Raised e, self1, store1)
                      | Inr dt_open \<Rightarrow>
                          if dt_le dt_open (dt_last_open self1) then (Returned None, self1, store1)
                          else
                            (case write_lines p prov b
                                    (switch_mode (self1\<lparr>dt_last_open := dt_open\<rparr>)) of
                               (r, self') \<Rightarrow> (r, self', store1))))))"

text \<open>
  \<open>Data.stop\<close>: cancelling the schedule or the subscription touches no attribute of the
  model.
\<close>

definition stop :: "Data \<Rightarrow> Data" where
  "stop self = (if guid self \<noteq> None then data_put_notification DISCONNECTED self else self)"

subsection \<open>The host's pull cycle\<close>

text \<open>
  Between two polls the producers (the subscription callback, the schedule thread) may
  append entries to the inbox. A run is a sequence of such appends and of polls, each
  poll with the clocks as it reads them. The run records every poll: what it returned
  and the state it left; an exception ends the run.
\<close>

datatype event = Poll clock | New_Bar entry

fun run :: "params \<Rightarrow> provider \<Rightarrow> event list \<Rightarrow> Data \<times> 'n Store \<Rightarrow> (outcome \<times> Data \<times> 'n Store) list" where
  "run p prov [] s = []"
| "run p prov (New_Bar e # evs) s =
     run p prov evs (fst s, (snd s)\<lparr>new_bars := new_bars (snd s) @ [e]\<rparr>)"
| "run p prov (Poll clk # evs) s =
     (case load p prov clk s of
        (Raised e, s') \<Rightarrow> [(Raised e, s')]
      | (Returned r, s') \<Rightarrow> (Returned r, s') # run p prov evs s')"

text \<open>The bar a poll has emitted, if it returned \<open>True\<close>.\<close>

definition emitted_bar :: "outcome \<times> Data \<times> 'n Store \<Rightarrow> lines list" where
  "emitted_bar x =
     (case x of
        (Returned (Some True), self, _) \<Rightarrow> (case cur_lines self of Some l \<Rightarrow> [l] | None \<Rightarrow> [])
      | _ \<Rightarrow> [])"

definition emitted :: "(outcome \<times> Data \<times> 'n Store) list \<Rightarrow> lines list" where
  "emitted tr = concat (map emitted_bar tr)"

text \<open>The state after a run: the state the last poll left, or the initial one.\<close>

definition final_state :: "Data \<times> 'n Store \<Rightarrow> (outcome \<times> Data \<times> 'n Store) list \<Rightarrow> Data \<times> 'n Store" where
  "final_state s tr = (case tr of [] \<Rightarrow> s | _ # _ \<Rightarrow> snd (last tr))"

section \<open>Concrete feeds and bars\<close>

text \<open>
  Inputs for the examples below: a provider whose prices need no conversion and whose
  Moscow time is UTC plus three hours, a one-minute live feed subscribed under the handle
  \<open>H\<close>, a daily history feed, and a few bars.
\<close>

definition msk_provider :: provider where
  "msk_provider =
     \<lparr>alor_price_to_price = (\<lambda>x. x),
      utc_timestamp_to_msk_datetime = (\<lambda>ts. utcfromtimestamp (ts + 10800))\<rparr>"

definition minute_live_params :: params where
  "minute_live_params =
     \<lparr>timeframe = Minutes, compression = 1, four_price_doji = False, schedule = False,
      live_bars = True, sessionstart = time_min, sessionend = sessionend_unset\<rparr>"

definition day_history_params :: params where
  "day_history_params =
     \<lparr>timeframe = Days, compression = 1, four_price_doji = False, schedule = False,
      live_bars = False, sessionstart = time_min, sessionend = sessionend_unset\<rparr>"

definition month_params :: params where
  "month_params = day_history_params\<lparr>timeframe := Months\<rparr>"

text \<open>Both clocks at noon UTC on 1 June 2024.\<close>

definition noon_clock :: clock where
  "noon_clock = \<lparr>get_time = 1717243200, now_msk = Datetime 2024 6 1 (Time 15 0 0 0)\<rparr>"

text \<open>Two one-minute bars opening at 11:00 and 11:01 Moscow time on 1 January 2024.\<close>

definition bar_t5 :: bar where
  "bar_t5 = \<lparr>bar_time = 1704096000, bar_open = 100, bar_high = 101, bar_low = 99,
             bar_close = 100, bar_volume = 10\<rparr>"

definition bar_t6 :: bar where
  "bar_t6 = bar_t5\<lparr>bar_time := 1704096060\<rparr>"

definition bar_doji :: bar where
  "bar_doji = bar_t5\<lparr>bar_high := 100, bar_low := 100\<rparr>"

text \<open>Daily bars of 1 and 2 January 2024.\<close>

definition bar_d1 :: bar where
  "bar_d1 = \<lparr>bar_time = 1704067200, bar_open = 100, bar_high = 105, bar_low = 95,
             bar_close = 102, bar_volume = 1000\<rparr>"

definition bar_d2 :: bar where
  "bar_d2 = bar_d1\<lparr>bar_time := 1704153600\<rparr>"

definition bar_d_doji :: bar where
  "bar_d_doji = bar_d1\<lparr>bar_high := 100, bar_low := 100\<rparr>"

text \<open>An inbox entry for the handle \<open>H\<close>, and the live feed after \<open>start\<close> has subscribed under it.\<close>

definition entry_H :: "bar \<Rightarrow> entry" where
  "entry_H b = \<lparr>entry_provider_name = ''alor'', response_guid = ''H'', response_data = b\<rparr>"

definition feed_H :: Data where
  "feed_H = snd (start minute_live_params msk_provider [] ''H'' (Data_init ''alor''))"

text \<open>A store whose inbox holds the given entries.\<close>

definition inbox :: "entry list \<Rightarrow> unit Store" where
  "inbox es = \<lparr>notifs = [], new_bars = es\<rparr>"

text \<open>A daily history feed after \<open>start\<close> has fetched the given bars.\<close>

definition feed_days :: "bar list \<Rightarrow> Data" where
  "feed_days bs =
     snd (start day_history_params msk_provider (map (\<lambda>b. (b, noon_clock)) bs) [] (Data_init ''alor''))"

text \<open>A live feed that lets four-price doji bars through and whose session starts at noon.\<close>

definition late_session_doji_params :: params where
  "late_session_doji_params = minute_live_params\<lparr>four_price_doji := True, sessionstart := Time 12 0 0 0\<rparr>"

section \<open>Auxiliary facts\<close>

subsection \<open>Order of datetimes\<close>

lemma dt_le_iff: "dt_le a b = (\<not> dt_less b a)"
  by (simp add: dt_le_def dt_less_def not_less)

lemma dt_less_trans: "dt_less a b \<Longrightarrow> dt_less b c \<Longrightarrow> dt_less a c"
  unfolding dt_less_def by (rule less_trans)

subsection \<open>One call of load\<close>

lemma switch_mode_fields:
  "dt_last_open (switch_mode s) = dt_last_open s"
  "last_bar_received (switch_mode s) = last_bar_received s"
  "provider_name (switch_mode s) = provider_name s"
  "guid (switch_mode s) = guid s"
  "history_bars (switch_mode s) = history_bars s"
  "cur_lines (switch_mode s) = cur_lines s"
  "live_mode (switch_mode s) = last_bar_received s"
  by (auto simp: switch_mode_def data_put_notification_def)

lemma switch_mode_notifications:
  "put_notifications (switch_mode s) = put_notifications s @
     (if last_bar_received s \<and> \<not> live_mode s then [LIVE]
      else if live_mode s \<and> \<not> last_bar_received s then [DELAYED] else [])"
  by (simp add: switch_mode_def data_put_notification_def)

text \<open>The live branch once an entry of this feed has been found, and the other branches.\<close>

lemma load_live_claimed:
  assumes "live_bars p" and "filter (is_own self) (new_bars store) = nb # others"
  shows "load p prov clk (self, store) =
     (let self1 = self\<lparr>last_bar_received := (others = [])\<rparr>;
          store1 = store\<lparr>new_bars := remove1 nb (new_bars store)\<rparr>;
          b = response_data nb
      in case is_bar_valid p prov clk self1 b of
           Inl e \<Rightarrow> (Raised e, self1, store1)
         | Inr False \<Rightarrow> (Returned None, self1, store1)
         | Inr True \<Rightarrow>
             (case get_bar_open_date_time p prov b of
                Inl e \<Rightarrow> (Raised e, self1, store1)
              | Inr dt_open \<Rightarrow>
                  if dt_le dt_open (dt_last_open self) then (Returned None, self1, store1)
                  else (Returned (Some True),
                        (switch_mode (self1\<lparr>dt_last_open := dt_open\<rparr>))\<lparr>cur_lines := Some (bar_lines prov b dt_open)\<rparr>, store1)))"
proof -
  from assms(2) have "new_bars store \<noteq> []" by auto
  then show ?thesis
    using assms by (simp add: load_def Let_def write_lines_def split: sum.splits bool.splits)
qed

lemma load_live_none:
  assumes "live_bars p" and "filter (is_own self) (new_bars store) = []"
  shows "load p prov clk (self, store) = (Returned None, self, store)"
  using assms by (simp add: load_def)

lemma load_hist_empty:
  assumes "\<not> live_bars p" and "history_bars self = []"
  shows "load p prov clk (self, store) = (Returned (Some False), data_put_notification DISCONNECTED self, store)"
  using assms by (simp add: load_def)

lemma load_hist_cons:
  assumes "\<not> live_bars p" and "history_bars self = b # bs"
  shows "load p prov clk (self, store) =
     (case get_bar_open_date_time p prov b of
        Inl e \<Rightarrow> (Raised e, self\<lparr>history_bars := bs\<rparr>, store)
      | Inr dt \<Rightarrow> (Returned (Some True), self\<lparr>history_bars := bs, cur_lines := Some (bar_lines prov b dt)\<rparr>, store))"
  using assms by (simp add: load_def write_lines_def split: sum.splits)

lemma load_keeps_identity:
  "provider_name (fst (snd (load p prov clk (self, store)))) = provider_name self
   \<and> guid (fst (snd (load p prov clk (self, store)))) = guid self"
proof (cases "live_bars p")
  case False
  then show ?thesis
    by (cases "history_bars self")
      (auto simp: load_hist_empty load_hist_cons data_put_notification_def split: sum.splits)
next
  case True
  show ?thesis
  proof (cases "filter (is_own self) (new_bars store)")
    case Nil
    with True show ?thesis by (simp add: load_live_none)
  next
    case (Cons nb others)
    with True show ?thesis
      by (simp add: load_live_claimed Let_def switch_mode_fields split: sum.splits bool.splits)
  qed
qed

lemma is_own_cong: "provider_name a = provider_name b \<Longrightarrow> guid a = guid b \<Longrightarrow> is_own a = is_own b"
  by (auto simp: is_own_def fun_eq_iff)

lemma load_live_store:
  assumes "live_bars p" and "filter (is_own self) (new_bars store) = nb # others"
  shows "snd (snd (load p prov clk (self, store))) = store\<lparr>new_bars := remove1 nb (new_bars store)\<rparr>"
    and "last_bar_received (fst (snd (load p prov clk (self, store)))) = (others = [])"
  using assms
  by (simp_all add: load_live_claimed Let_def switch_mode_fields split: sum.splits bool.splits)

lemma load_live_emit:
  assumes "live_bars p" and "fst (load p prov clk (self, store)) = Returned (Some True)"
  shows "\<exists>l. cur_lines (fst (snd (load p prov clk (self, store)))) = Some l
           \<and> lines_datetime l = dt_last_open (fst (snd (load p prov clk (self, store))))
           \<and> dt_less (dt_last_open self) (lines_datetime l)"
proof (cases "filter (is_own self) (new_bars store)")
  case Nil
  with assms show ?thesis by (simp add: load_live_none)
next
  case (Cons nb others)
  with assms show ?thesis
    by (auto simp: load_live_claimed Let_def switch_mode_fields bar_lines_def dt_le_iff
             split: sum.splits bool.splits if_splits)
qed

lemma load_no_emit_frame:
  assumes "fst (load p prov clk (self, store)) \<noteq> Returned (Some True)"
  shows "dt_last_open (fst (snd (load p prov clk (self, store)))) = dt_last_open self
       \<and> live_mode (fst (snd (load p prov clk (self, store)))) = live_mode self"
proof (cases "live_bars p")
  case False
  then show ?thesis
    by (cases "history_bars self")
      (auto simp: load_hist_empty load_hist_cons data_put_notification_def split: sum.splits)
next
  case True
  show ?thesis
  proof (cases "filter (is_own self) (new_bars store)")
    case Nil
    with True show ?thesis by (simp add: load_live_none)
  next
    case (Cons nb others)
    with True assms show ?thesis
      by (auto simp: load_live_claimed Let_def split: sum.splits bool.splits if_splits)
  qed
qed

lemma emitted_Nil: "emitted [] = []"
  by (simp add: emitted_def)

lemma emitted_Cons: "emitted (x # tr) = emitted_bar x @ emitted tr"
  by (simp add: emitted_def)

lemma load_live_result:
  assumes "live_bars p" and "filter (is_own self) (new_bars store) = nb # others"
  shows "(fst (load p prov clk (self, store)) \<noteq> Returned (Some True)
          \<and> fst (snd (load p prov clk (self, store))) = self\<lparr>last_bar_received := (others = [])\<rparr>)
       \<or> (\<exists>dt. fst (load p prov clk (self, store)) = Returned (Some True)
             \<and> fst (snd (load p prov clk (self, store)))
                 = (switch_mode (self\<lparr>last_bar_received := (others = []), dt_last_open := dt\<rparr>))
                     \<lparr>cur_lines := Some (bar_lines prov (response_data nb) dt)\<rparr>
             \<and> get_bar_open_date_time p prov (response_data nb) = Inr dt
             \<and> \<not> dt_le dt (dt_last_open self))"
proof -
  note L = load_live_claimed [OF assms, of prov clk]
  show ?thesis
  proof (cases "is_bar_valid p prov clk (self\<lparr>last_bar_received := (others = [])\<rparr>) (response_data nb)")
    case (Inl e)
    then show ?thesis by (simp add: L Let_def)
  next
    case (Inr ok)
    show ?thesis
    proof (cases ok)
      case False
      with Inr show ?thesis by (simp add: L Let_def)
    next
      case True
      show ?thesis
      proof (cases "get_bar_open_date_time p prov (response_data nb)")
        case (Inl e)
        with Inr True show ?thesis by (simp add: L Let_def)
      next
        case open_ok: (Inr dt)
        with Inr True show ?thesis by (simp add: L Let_def)
      qed
    qed
  qed
qed

subsection \<open>The session filter and start\<close>

lemma is_bar_valid_cong:
  "last_bar_received a = last_bar_received b \<Longrightarrow> is_bar_valid p prov clk a x = is_bar_valid p prov clk b x"
proof -
  assume "last_bar_received a = last_bar_received b"
  then have h: "get_alor_date_time_now prov clk a = get_alor_date_time_now prov clk b"
    by (simp add: get_alor_date_time_now_def)
  show ?thesis
    unfolding is_bar_valid_def h ..
qed

lemma is_bar_valid_open:
  "is_bar_valid p prov clk s b = Inr ok \<Longrightarrow> \<exists>d. get_bar_open_date_time p prov b = Inr d"
  by (cases "get_bar_open_date_time p prov b") (simp_all add: is_bar_valid_def)

lemma append_valid_bars_result:
  assumes "append_valid_bars p prov fetched self = (None, self')"
  shows "self' = self\<lparr>history_bars := history_bars self
            @ map fst (filter (\<lambda>(b, clk). is_bar_valid p prov clk self b = Inr True) fetched)\<rparr>"
  using assms
proof (induction fetched arbitrary: self)
  case Nil
  then show ?case by simp
next
  case (Cons x fetched)
  obtain b clk where x: "x = (b, clk)" by (cases x)
  show ?case
  proof (cases "is_bar_valid p prov clk self b")
    case (Inl e)
    with Cons.prems x show ?thesis by simp
  next
    case (Inr ok)
    let ?s = "if ok then self\<lparr>history_bars := history_bars self @ [b]\<rparr> else self"
    have same: "\<And>c y hb. is_bar_valid p prov c (self\<lparr>history_bars := hb\<rparr>) y = is_bar_valid p prov c self y"
      by (rule is_bar_valid_cong) simp
    from Cons.prems x Inr have "append_valid_bars p prov fetched ?s = (None, self')"
      by simp
    from Cons.IH [OF this] show ?thesis
      using x Inr by (cases ok) (simp_all add: same)
  qed
qed

lemma start_history_result:
  assumes "\<not> live_bars p" and "start p prov fetched g (Data_init name) = (None, self)"
  shows "history_bars self
           = map fst (filter (\<lambda>(b, clk). is_bar_valid p prov clk (Data_init name) b = Inr True) fetched)"
    and "put_notifications self = (if history_bars self = [] then [DELAYED] else [DELAYED, CONNECTED])"
    and "guid self = None"
proof -
  let ?s0 = "data_put_notification DELAYED (Data_init name)"
  obtain r s1 where a: "append_valid_bars p prov fetched ?s0 = (r, s1)"
    by (cases "append_valid_bars p prov fetched ?s0") auto
  with assms have r: "r = None"
    by (cases r) (simp_all add: start_def Let_def)
  have same: "\<And>c y. is_bar_valid p prov c ?s0 y = is_bar_valid p prov c (Data_init name) y"
    by (rule is_bar_valid_cong) (simp add: data_put_notification_def)
  from append_valid_bars_result [OF a [unfolded r]]
  have s1: "s1 = ?s0\<lparr>history_bars := history_bars ?s0
       @ map fst (filter (\<lambda>(b, clk). is_bar_valid p prov clk (Data_init name) b = Inr True) fetched)\<rparr>"
    by (simp add: same)
  from assms a r have self: "self = (if length (history_bars s1) > 0 then data_put_notification CONNECTED s1 else s1)"
    by (simp add: start_def Let_def split: if_splits)
  show "history_bars self
           = map fst (filter (\<lambda>(b, clk). is_bar_valid p prov clk (Data_init name) b = Inr True) fetched)"
    by (simp add: self s1 data_put_notification_def Data_init_def)
  show "put_notifications self = (if history_bars self = [] then [DELAYED] else [DELAYED, CONNECTED])"
    by (simp add: self s1 data_put_notification_def Data_init_def)
  show "guid self = None"
    by (simp add: self s1 data_put_notification_def Data_init_def)
qed

subsection \<open>Runs\<close>

lemma run_live_increasing:
  assumes "live_bars p"
  shows "sorted_wrt dt_less (map lines_datetime (emitted (run p prov evs (self, store))))
       \<and> (\<forall>l\<in>set (emitted (run p prov evs (self, store))). dt_less (dt_last_open self) (lines_datetime l))"
proof (induction evs arbitrary: self store)
  case Nil
  show ?case by (simp add: emitted_Nil)
next
  case (Cons ev evs)
  show ?case
  proof (cases ev)
    case (New_Bar e)
    then show ?thesis
      using Cons.IH [of self "store\<lparr>new_bars := new_bars store @ [e]\<rparr>"] by simp
  next
    case (Poll clk)
    obtain r self' store' where L: "load p prov clk (self, store) = (r, self', store')"
      by (cases "load p prov clk (self, store)") auto
    show ?thesis
    proof (cases r)
      case (Raised e)
      with Poll L show ?thesis by (simp add: emitted_def emitted_bar_def)
    next
      case (Returned x)
      note IH = Cons.IH [of self' store']
      have tr: "run p prov (ev # evs) (self, store) = (Returned x, self', store') # run p prov evs (self', store')"
        using Poll L Returned by simp
      show ?thesis
      proof (cases "x = Some True")
        case True
        from load_live_emit [OF assms, of prov clk self store] L Returned True
        obtain l where l: "cur_lines self' = Some l" "lines_datetime l = dt_last_open self'"
          "dt_less (dt_last_open self) (lines_datetime l)"
          by auto
        have hd: "emitted_bar (Returned x, self', store') = [l]"
          using True l by (simp add: emitted_bar_def)
        from IH l have later: "\<forall>l'\<in>set (emitted (run p prov evs (self', store'))). dt_less (lines_datetime l) (lines_datetime l')"
          by simp
        with l(3) have "\<forall>l'\<in>set (emitted (run p prov evs (self', store'))). dt_less (dt_last_open self) (lines_datetime l')"
          by (blast intro: dt_less_trans)
        with later IH l(3) show ?thesis
          by (simp add: tr emitted_Cons hd)
      next
        case False
        have hd: "emitted_bar (Returned x, self', store') = []"
          using False by (auto simp: emitted_bar_def split: option.splits bool.splits)
        have "dt_last_open self' = dt_last_open self"
          using load_no_emit_frame [of p prov clk self store] L Returned False by simp
        with IH show ?thesis
          by (simp add: tr emitted_Cons hd)
      qed
    qed
  qed
qed


lemma run_hist_emitted:
  assumes "\<not> live_bars p"
    and "\<forall>b\<in>set (history_bars self). \<exists>d. get_bar_open_date_time p prov b = Inr d"
  shows "map (\<lambda>l. Inr (lines_datetime l)) (emitted (run p prov (map Poll clks) (self, store)))
           = map (get_bar_open_date_time p prov) (take (length clks) (history_bars self))"
  using assms(2)
proof (induction clks arbitrary: self)
  case Nil
  show ?case by (simp add: emitted_Nil)
next
  case (Cons clk clks)
  show ?case
  proof (cases "history_bars self")
    case Nil
    have "map (\<lambda>l. Inr (lines_datetime l))
            (emitted (run p prov (map Poll clks) (data_put_notification DISCONNECTED self, store)))
          = map (get_bar_open_date_time p prov)
              (take (length clks) (history_bars (data_put_notification DISCONNECTED self)))"
      by (rule Cons.IH) (simp add: Nil data_put_notification_def)
    then show ?thesis
      using assms(1) Nil
      by (simp add: load_hist_empty emitted_Cons emitted_bar_def data_put_notification_def)
  next
    case (Cons b bs)
    from Cons.prems Cons obtain d where d: "get_bar_open_date_time p prov b = Inr d"
      by auto
    let ?self' = "self\<lparr>history_bars := bs, cur_lines := Some (bar_lines prov b d)\<rparr>"
    have "map (\<lambda>l. Inr (lines_datetime l)) (emitted (run p prov (map Poll clks) (?self', store)))
          = map (get_bar_open_date_time p prov) (take (length clks) (history_bars ?self'))"
      using Cons.prems Cons by (intro Cons.IH) simp
    then show ?thesis
      using assms(1) Cons d
      by (simp add: load_hist_cons emitted_Cons emitted_bar_def bar_lines_def)
  qed
qed

lemma final_state_Cons: "final_state s (x # tr) = final_state (snd x) tr"
  by (cases tr) (simp_all add: final_state_def)

lemma final_state_Nil: "final_state s [] = s"
  by (simp add: final_state_def)

lemma run_hist_exhausted:
  assumes "\<not> live_bars p" and "history_bars self = []"
  shows "emitted (run p prov (map Poll later) (self, store)) = []
       \<and> set (map fst (run p prov (map Poll later) (self, store))) \<subseteq> {Returned (Some False)}"
  using assms(2)
proof (induction later arbitrary: self)
  case Nil
  show ?case by (simp add: emitted_Nil)
next
  case (Cons c later)
  have "history_bars (data_put_notification DISCONNECTED self) = []"
    using Cons.prems by (simp add: data_put_notification_def)
  from Cons.IH [OF this] show ?case
    using assms(1) Cons.prems
    by (simp add: load_hist_empty emitted_Cons emitted_bar_def)
qed

lemma run_hist_exhausted_notifications:
  assumes "\<not> live_bars p" and "history_bars self = []"
  shows "put_notifications (fst (final_state (self, store) (run p prov (map Poll later) (self, store))))
           = put_notifications self @ replicate (length later) DISCONNECTED"
  using assms(2)
proof (induction later arbitrary: self)
  case Nil
  show ?case by (simp add: final_state_Nil)
next
  case (Cons c later)
  have "history_bars (data_put_notification DISCONNECTED self) = []"
    using Cons.prems by (simp add: data_put_notification_def)
  from Cons.IH [OF this] show ?case
    using assms(1) Cons.prems
    by (simp add: load_hist_empty final_state_Cons data_put_notification_def replicate_append_same)
qed

lemma run_hist_complete:
  assumes "\<not> live_bars p"
    and "\<forall>b\<in>set (history_bars self). \<exists>d. get_bar_open_date_time p prov b = Inr d"
    and "length clks = length (history_bars self) + 1"
  shows "map fst (run p prov (map Poll clks) (self, store))
           = replicate (length (history_bars self)) (Returned (Some True)) @ [Returned (Some False)]
       \<and> list_all2 (\<lambda>l b. get_bar_open_date_time p prov b = Inr (lines_datetime l)
                           \<and> l = \<lparr>lines_datetime = lines_datetime l,
                                  lines_open = alor_price_to_price prov (bar_open b),
                                  lines_high = alor_price_to_price prov (bar_high b),
                                  lines_low = alor_price_to_price prov (bar_low b),
                                  lines_close = alor_price_to_price prov (bar_close b),
                                  lines_volume = bar_volume b,
                                  lines_openinterest = 0\<rparr>)
           (emitted (run p prov (map Poll clks) (self, store))) (history_bars self)
       \<and> (\<forall>i<length clks. history_bars (fst (snd (run p prov (map Poll clks) (self, store) ! i)))
             = drop (Suc i) (history_bars self))
       \<and> history_bars (fst (final_state (self, store) (run p prov (map Poll clks) (self, store)))) = []
       \<and> put_notifications (fst (final_state (self, store) (run p prov (map Poll clks) (self, store))))
           = put_notifications self @ [DISCONNECTED]
       \<and> guid (fst (final_state (self, store) (run p prov (map Poll clks) (self, store)))) = guid self"
  using assms(2,3)
proof (induction clks arbitrary: self)
  case Nil
  then show ?case by simp
next
  case (Cons c cs)
  show ?case
  proof (cases "history_bars self")
    case Nil
    with Cons.prems have "cs = []" by simp
    with Nil assms(1) show ?thesis
      by (simp add: load_hist_empty emitted_Cons emitted_Nil emitted_bar_def final_state_def
            data_put_notification_def)
  next
    case (Cons b bs)
    from Cons.prems(1) Cons obtain d where d: "get_bar_open_date_time p prov b = Inr d"
      by auto
    let ?self' = "self\<lparr>history_bars := bs, cur_lines := Some (bar_lines prov b d)\<rparr>"
    have L: "load p prov c (self, store) = (Returned (Some True), ?self', store)"
      using assms(1) Cons d by (simp add: load_hist_cons)
    have p1: "\<forall>b\<in>set (history_bars ?self'). \<exists>d. get_bar_open_date_time p prov b = Inr d"
      using Cons.prems(1) Cons by simp
    have p2: "length cs = length (history_bars ?self') + 1"
      using Cons.prems(2) Cons by simp
    note IH = Cons.IH [OF p1 p2]
    have tr: "run p prov (map Poll (c # cs)) (self, store)
                = (Returned (Some True), ?self', store) # run p prov (map Poll cs) (?self', store)"
      by (simp add: L)
    have e: "emitted_bar (Returned (Some True), ?self', store) = [bar_lines prov b d]"
      by (simp add: emitted_bar_def)
    have pops: "\<forall>i<length (c # cs).
        history_bars (fst (snd (((Returned (Some True), ?self', store)
                                  # run p prov (map Poll cs) (?self', store)) ! i)))
          = drop (Suc i) (b # bs)"
    proof (intro allI impI)
      fix i
      assume i: "i < length (c # cs)"
      show "history_bars (fst (snd (((Returned (Some True), ?self', store)
                                  # run p prov (map Poll cs) (?self', store)) ! i)))
          = drop (Suc i) (b # bs)"
      proof (cases i)
        case 0
        then show ?thesis by simp
      next
        case (Suc j)
        with i have "j < length cs" by simp
        with IH have "history_bars (fst (snd (run p prov (map Poll cs) (?self', store) ! j)))
          = drop (Suc j) (history_bars ?self')"
          by blast
        with Suc show ?thesis by simp
      qed
    qed
    from IH pops show ?thesis
      unfolding tr
      apply (simp only: list.map fst_conv emitted_Cons e final_state_Cons snd_conv Cons)
      apply (simp add: d bar_lines_def)
      done
  qed
qed

subsection \<open>The drain of the notification queue\<close>

lemma popleft_until_None_sentinel:
  "popleft_until_None arriving (map Some xs @ None # map Some ys)
     = Inr (xs, map Some (ys @ concat (take (Suc (length xs)) arriving)))"
proof (induction xs arbitrary: arriving ys)
  case Nil
  show ?case
    by (cases arriving) (subst popleft_until_None.simps, simp)+
next
  case (Cons x xs)
  show ?case
  proof (cases arriving)
    case Nil
    then show ?thesis
      using Cons.IH [of "[]" ys] by (subst popleft_until_None.simps) simp
  next
    case (Cons a as)
    then show ?thesis
      using Cons.IH [of as "ys @ a"] by (subst popleft_until_None.simps) simp
  qed
qed

subsection \<open>Durations\<close>

lemma td_minutes: "timedelta_minutes c =
   (if - 1439999998560 \<le> c \<and> c < 1440000000000 then Inr (Timedelta (c div 1440) (c mod 1440 * 60) 0) else Inl OverflowError)"
proof -
  have a: "c * 60000000 div 86400000000 = c div 1440"
    using div_mult_mult1 [of "60000000::int" c 1440] by (simp add: mult.commute)
  have b: "c * 60000000 mod 86400000000 = (c mod 1440) * 60000000"
    using mult_mod_right [of "60000000::int" c 1440] by (simp add: mult.commute)
  have c1: "(c mod 1440) * 60000000 div 1000000 = c mod 1440 * 60"
    by simp
  have c2: "(c mod 1440) * 60000000 mod 1000000 = 0"
    by simp
  have d: "(- 999999999 \<le> c div 1440 \<and> c div 1440 \<le> 999999999) = (- 1439999998560 \<le> c \<and> c < 1440000000000)"
    by linarith
  show ?thesis
    unfolding timedelta_minutes_def timedelta_of_us_def us_per_day_def Let_def a b c1 c2 d by simp
qed

lemma td_seconds: "timedelta_seconds c =
   (if - 86399999913600 \<le> c \<and> c < 86400000000000 then Inr (Timedelta (c div 86400) (c mod 86400) 0) else Inl OverflowError)"
proof -
  have a: "c * 1000000 div 86400000000 = c div 86400"
    using div_mult_mult1 [of "1000000::int" c 86400] by (simp add: mult.commute)
  have b: "c * 1000000 mod 86400000000 = (c mod 86400) * 1000000"
    using mult_mod_right [of "1000000::int" c 86400] by (simp add: mult.commute)
  have c1: "(c mod 86400) * 1000000 div 1000000 = c mod 86400"
    by simp
  have c2: "(c mod 86400) * 1000000 mod 1000000 = 0"
    by simp
  have d: "(- 999999999 \<le> c div 86400 \<and> c div 86400 \<le> 999999999) = (- 86399999913600 \<le> c \<and> c < 86400000000000)"
    by linarith
  show ?thesis
    unfolding timedelta_seconds_def timedelta_of_us_def us_per_day_def Let_def a b c1 c2 d by simp
qed

lemma td_one_day: "timedelta_days 1 = Inr (Timedelta 1 0 0)"
  by (simp add: timedelta_days_def timedelta_of_us_def us_per_day_def)

lemma td_one_week: "timedelta_weeks 1 = Inr (Timedelta 7 0 0)"
  by (simp add: timedelta_weeks_def timedelta_of_us_def us_per_day_def)

subsection \<open>Months and the doji flag\<close>

lemma month_index:
  fixes m n :: int
  shows "12 * (y + (m + n - 1) div 12) + ((m + n - 1) mod 12 + 1) = 12 * y + m + n"
proof -
  have "12 * ((m + n - 1) div 12) + (m + n - 1) mod 12 = m + n - 1"
    by simp
  then show ?thesis by (simp add: algebra_simps)
qed

lemma open_close_ignore_doji_flag:
  "get_bar_open_date_time (p\<lparr>four_price_doji := x\<rparr>) prov b = get_bar_open_date_time p prov b"
  "get_bar_close_date_time (p\<lparr>four_price_doji := x\<rparr>) d n = get_bar_close_date_time p d n"
  by (simp_all add: get_bar_open_date_time_def get_bar_close_date_time_def)

lemma fold_put_notification:
  "fold put_notification ms st = st\<lparr>notifs := notifs st @ map Some ms\<rparr>"
  by (induction ms arbitrary: st) (simp_all add: put_notification_def)

section \<open>The claims\<close>

subsection \<open>C1: what a live poll claims from the inbox\<close>

text \<open>
  C1, as stated, fails. With two entries of this feed in the inbox, one poll leaves exactly
  one of them, and \<open>last_bar_received\<close> is false; the claim has it true there.
\<close>

theorem C1_last_bar_received_counterexample:
  "last_bar_received
     (fst (snd (load minute_live_params msk_provider noon_clock
                  (feed_H, inbox [entry_H bar_t5, entry_H bar_t6]))))
   \<noteq> (length (filter
         (is_own (fst (snd (load minute_live_params msk_provider noon_clock
                              (feed_H, inbox [entry_H bar_t5, entry_H bar_t6])))))
         (new_bars (snd (snd (load minute_live_params msk_provider noon_clock
                                (feed_H, inbox [entry_H bar_t5, entry_H bar_t6])))))) = 1)"
  by code_simp

text \<open>
  C1, amended. In live mode, a poll that finds entries of this feed in the inbox removes
  exactly one entry, the earliest-arrived of them, and leaves the others in their order;
  \<open>last_bar_received\<close> becomes true exactly when that entry was the only one of this feed,
  that is, when no entry of this feed remains after the removal.
\<close>

theorem load_claims_one_entry:
  assumes "live_bars p" and "filter (is_own self) (new_bars store) \<noteq> []"
  shows "let res = load p prov clk (self, store); self' = fst (snd res); store' = snd (snd res)
         in new_bars store' = remove1 (hd (filter (is_own self) (new_bars store))) (new_bars store)
          \<and> length (new_bars store') + 1 = length (new_bars store)
          \<and> filter (is_own self') (new_bars store') = tl (filter (is_own self) (new_bars store))
          \<and> last_bar_received self' = (length (filter (is_own self) (new_bars store)) = 1)
          \<and> last_bar_received self' = (length (filter (is_own self') (new_bars store')) = 0)"
proof -
  from assms(2) obtain nb others where f: "filter (is_own self) (new_bars store) = nb # others"
    by (cases "filter (is_own self) (new_bars store)") auto
  then have "nb \<in> set (filter (is_own self) (new_bars store))" by simp
  then have mem: "nb \<in> set (new_bars store)" by simp
  have own: "is_own (fst (snd (load p prov clk (self, store)))) = is_own self"
    using load_keeps_identity [of p prov clk self store] by (intro is_own_cong) simp_all
  have rest: "filter (is_own self) (remove1 nb (new_bars store)) = others"
    by (simp add: filter_remove1 f)
  have len: "length (remove1 nb (new_bars store)) + 1 = length (new_bars store)"
    using mem by (simp add: length_remove1) (cases "new_bars store"; simp)
  show ?thesis
    using load_live_store [OF assms(1) f, of prov clk] own rest len f
    by (simp add: Let_def)
qed

theorem load_claims_one_entry_witness:
  "live_bars minute_live_params
   \<and> filter (is_own feed_H) (new_bars (inbox [entry_H bar_t5, entry_H bar_t6])) \<noteq> []
   \<and> (let res = load minute_live_params msk_provider noon_clock
                   (feed_H, inbox [entry_H bar_t5, entry_H bar_t6]);
           self' = fst (snd res); store' = snd (snd res)
       in new_bars store'
            = remove1 (hd (filter (is_own feed_H) (new_bars (inbox [entry_H bar_t5, entry_H bar_t6]))))
                (new_bars (inbox [entry_H bar_t5, entry_H bar_t6]))
        \<and> length (new_bars store') + 1 = length (new_bars (inbox [entry_H bar_t5, entry_H bar_t6]))
        \<and> filter (is_own self') (new_bars store')
            = tl (filter (is_own feed_H) (new_bars (inbox [entry_H bar_t5, entry_H bar_t6])))
        \<and> last_bar_received self'
            = (length (filter (is_own feed_H) (new_bars (inbox [entry_H bar_t5, entry_H bar_t6]))) = 1)
        \<and> last_bar_received self' = (length (filter (is_own self') (new_bars store')) = 0))"
proof (intro conjI)
  show h1: "live_bars minute_live_params"
    by (simp add: minute_live_params_def)
  show h2: "filter (is_own feed_H) (new_bars (inbox [entry_H bar_t5, entry_H bar_t6])) \<noteq> []"
    by code_simp
  show "let res = load minute_live_params msk_provider noon_clock
                   (feed_H, inbox [entry_H bar_t5, entry_H bar_t6]);
           self' = fst (snd res); store' = snd (snd res)
       in new_bars store'
            = remove1 (hd (filter (is_own feed_H) (new_bars (inbox [entry_H bar_t5, entry_H bar_t6]))))
                (new_bars (inbox [entry_H bar_t5, entry_H bar_t6]))
        \<and> length (new_bars store') + 1 = length (new_bars (inbox [entry_H bar_t5, entry_H bar_t6]))
        \<and> filter (is_own self') (new_bars store')
            = tl (filter (is_own feed_H) (new_bars (inbox [entry_H bar_t5, entry_H bar_t6])))
        \<and> last_bar_received self'
            = (length (filter (is_own feed_H) (new_bars (inbox [entry_H bar_t5, entry_H bar_t6]))) = 1)
        \<and> last_bar_received self' = (length (filter (is_own self') (new_bars store')) = 0)"
    by (rule load_claims_one_entry [OF h1 h2])
qed

subsection \<open>C2: the order of the emitted bars\<close>

text \<open>
  C2, as stated, fails in historical-only mode. The history is emitted as fetched: when
  the fetched list holds the same bar twice, two polls emit two bars with one opening
  time.
\<close>

theorem C2_history_duplicate_counterexample:
  "map lines_datetime
     (emitted (run day_history_params msk_provider [Poll noon_clock, Poll noon_clock]
                 (feed_days [bar_d1, bar_d1], inbox [])))
     = [Datetime 2024 1 1 (Time 0 0 0 0), Datetime 2024 1 1 (Time 0 0 0 0)]
   \<and> \<not> dt_less (Datetime 2024 1 1 (Time 0 0 0 0)) (Datetime 2024 1 1 (Time 0 0 0 0))"
  by code_simp

text \<open>
  C2, amended. In live mode, over any sequence of polls and inbox arrivals, the opening
  times of the emitted bars increase strictly, each lies above the \<open>dt_last_open\<close> the run
  began with, and so no opening time is emitted twice. In historical-only mode the polls
  emit the bars of the filtered history in their fetched order, whatever their opening
  times: the order is strict exactly when the fetched history is.
\<close>

theorem emitted_open_times_increase:
  "(live_bars p \<longrightarrow>
      sorted_wrt dt_less (map lines_datetime (emitted (run p prov evs (self, store))))
      \<and> (\<forall>l\<in>set (emitted (run p prov evs (self, store))). dt_less (dt_last_open self) (lines_datetime l)))
   \<and> (\<not> live_bars p \<and> (\<forall>b\<in>set (history_bars self). \<exists>d. get_bar_open_date_time p prov b = Inr d) \<longrightarrow>
      map (\<lambda>l. Inr (lines_datetime l)) (emitted (run p prov (map Poll clks) (self, store)))
        = map (get_bar_open_date_time p prov) (take (length clks) (history_bars self)))"
  using run_live_increasing [of p prov evs self store] run_hist_emitted [of p self prov clks store]
  by blast

theorem emitted_open_times_increase_witness:
  "live_bars minute_live_params
   \<and> sorted_wrt dt_less (map lines_datetime
        (emitted (run minute_live_params msk_provider
           [Poll noon_clock, New_Bar (entry_H bar_t5), Poll noon_clock, Poll noon_clock]
           (feed_H, inbox [entry_H bar_t5, entry_H bar_t6]))))
   \<and> map lines_datetime
        (emitted (run minute_live_params msk_provider
           [Poll noon_clock, New_Bar (entry_H bar_t5), Poll noon_clock, Poll noon_clock]
           (feed_H, inbox [entry_H bar_t5, entry_H bar_t6])))
       = [Datetime 2024 1 1 (Time 11 0 0 0), Datetime 2024 1 1 (Time 11 1 0 0)]
   \<and> \<not> live_bars day_history_params
   \<and> history_bars (feed_days [bar_d1, bar_d2]) = [bar_d1, bar_d2]
   \<and> get_bar_open_date_time day_history_params msk_provider bar_d1
       = Inr (Datetime 2024 1 1 (Time 0 0 0 0))
   \<and> get_bar_open_date_time day_history_params msk_provider bar_d2
       = Inr (Datetime 2024 1 2 (Time 0 0 0 0))
   \<and> map (\<lambda>l. Inr (lines_datetime l))
        (emitted (run day_history_params msk_provider (map Poll [noon_clock, noon_clock])
                    (feed_days [bar_d1, bar_d2], inbox [])))
       = map (get_bar_open_date_time day_history_params msk_provider)
           (take (length [noon_clock, noon_clock]) (history_bars (feed_days [bar_d1, bar_d2])))"
proof -
  have h1: "live_bars minute_live_params"
    by (simp add: minute_live_params_def)
  have h2: "\<not> live_bars day_history_params"
    by (simp add: day_history_params_def)
  have hb: "history_bars (feed_days [bar_d1, bar_d2]) = [bar_d1, bar_d2]"
    by code_simp
  have o1: "get_bar_open_date_time day_history_params msk_provider bar_d1
       = Inr (Datetime 2024 1 1 (Time 0 0 0 0))"
    by code_simp
  have o2: "get_bar_open_date_time day_history_params msk_provider bar_d2
       = Inr (Datetime 2024 1 2 (Time 0 0 0 0))"
    by code_simp
  have h3: "\<forall>b\<in>set (history_bars (feed_days [bar_d1, bar_d2])).
         \<exists>d. get_bar_open_date_time day_history_params msk_provider b = Inr d"
    by (simp add: hb o1 o2)
  have c1: "sorted_wrt dt_less (map lines_datetime
        (emitted (run minute_live_params msk_provider
           [Poll noon_clock, New_Bar (entry_H bar_t5), Poll noon_clock, Poll noon_clock]
           (feed_H, inbox [entry_H bar_t5, entry_H bar_t6]))))"
    using emitted_open_times_increase [of minute_live_params msk_provider _ feed_H "inbox [entry_H bar_t5, entry_H bar_t6]"] h1
    by blast
  have c2: "map lines_datetime
        (emitted (run minute_live_params msk_provider
           [Poll noon_clock, New_Bar (entry_H bar_t5), Poll noon_clock, Poll noon_clock]
           (feed_H, inbox [entry_H bar_t5, entry_H bar_t6])))
       = [Datetime 2024 1 1 (Time 11 0 0 0), Datetime 2024 1 1 (Time 11 1 0 0)]"
    by code_simp
  have c3: "map (\<lambda>l. Inr (lines_datetime l))
        (emitted (run day_history_params msk_provider (map Poll [noon_clock, noon_clock])
                    (feed_days [bar_d1, bar_d2], inbox [])))
       = map (get_bar_open_date_time day_history_params msk_provider)
           (take (length [noon_clock, noon_clock]) (history_bars (feed_days [bar_d1, bar_d2])))"
    using emitted_open_times_increase [of day_history_params msk_provider _ "feed_days [bar_d1, bar_d2]" "inbox []" "[noon_clock, noon_clock]"] h2 h3
    by blast
  from h1 h2 hb o1 o2 c1 c2 c3 show ?thesis by blast
qed

subsection \<open>C3: the switch between delayed and live\<close>

text \<open>
  C3. On a live-mode poll that emits a bar, with \<open>last_bar_received\<close> as that poll has
  just set it: the status \<open>LIVE\<close> is put and \<open>live_mode\<close> becomes true exactly when
  \<open>last_bar_received\<close> holds and \<open>live_mode\<close> was false; the status \<open>DELAYED\<close> is put and
  \<open>live_mode\<close> becomes false exactly when \<open>live_mode\<close> was true and \<open>last_bar_received\<close>
  does not hold; otherwise nothing is put and \<open>live_mode\<close> stays. So \<open>LIVE\<close> is never put
  while \<open>live_mode\<close> is already true. A live-mode poll that emits no bar puts nothing.
\<close>

theorem load_mode_switch:
  "(live_bars p \<and> fst (load p prov clk (self, store)) = Returned (Some True) \<longrightarrow>
      (let self' = fst (snd (load p prov clk (self, store)))
       in put_notifications self' = put_notifications self @
            (if last_bar_received self' \<and> \<not> live_mode self then [LIVE]
             else if live_mode self \<and> \<not> last_bar_received self' then [DELAYED]
             else [])
        \<and> live_mode self' =
            (if last_bar_received self' \<and> \<not> live_mode self then True
             else if live_mode self \<and> \<not> last_bar_received self' then False
             else live_mode self)
        \<and> (live_mode self \<longrightarrow> LIVE \<notin> set (drop (length (put_notifications self)) (put_notifications self')))))
   \<and> (live_bars p \<and> fst (load p prov clk (self, store)) \<noteq> Returned (Some True) \<longrightarrow>
        put_notifications (fst (snd (load p prov clk (self, store)))) = put_notifications self)"
proof (cases "live_bars p")
  case False
  then show ?thesis by simp
next
  case live: True
  show ?thesis
  proof (cases "filter (is_own self) (new_bars store)")
    case Nil
    with live show ?thesis by (simp add: load_live_none)
  next
    case (Cons nb others)
    from load_live_result [OF live Cons, of prov clk] show ?thesis
    proof (elim disjE exE conjE)
      assume "fst (load p prov clk (self, store)) \<noteq> Returned (Some True)"
        and "fst (snd (load p prov clk (self, store))) = self\<lparr>last_bar_received := (others = [])\<rparr>"
      then show ?thesis by simp
    next
      fix dt
      assume "fst (load p prov clk (self, store)) = Returned (Some True)"
        and "fst (snd (load p prov clk (self, store)))
                 = (switch_mode (self\<lparr>last_bar_received := (others = []), dt_last_open := dt\<rparr>))
                     \<lparr>cur_lines := Some (bar_lines prov (response_data nb) dt)\<rparr>"
      then show ?thesis
        by (auto simp: Let_def switch_mode_fields switch_mode_notifications)
    qed
  qed
qed

theorem load_mode_switch_witness:
  "live_bars minute_live_params
   \<and> fst (load minute_live_params msk_provider noon_clock (feed_H, inbox [entry_H bar_t6]))
       = Returned (Some True)
   \<and> put_notifications
        (fst (snd (load minute_live_params msk_provider noon_clock (feed_H, inbox [entry_H bar_t6]))))
       = put_notifications feed_H @ [LIVE]
   \<and> live_mode
        (fst (snd (load minute_live_params msk_provider noon_clock (feed_H, inbox [entry_H bar_t6]))))
   \<and> fst (load minute_live_params msk_provider noon_clock (feed_H, inbox [entry_H bar_doji]))
       \<noteq> Returned (Some True)
   \<and> put_notifications
        (fst (snd (load minute_live_params msk_provider noon_clock (feed_H, inbox [entry_H bar_doji]))))
       = put_notifications feed_H"
proof -
  have h1: "live_bars minute_live_params"
    by (simp add: minute_live_params_def)
  have h2: "fst (load minute_live_params msk_provider noon_clock (feed_H, inbox [entry_H bar_t6]))
       = Returned (Some True)"
    by code_simp
  have h3: "fst (load minute_live_params msk_provider noon_clock (feed_H, inbox [entry_H bar_doji]))
       \<noteq> Returned (Some True)"
    by code_simp
  have v1: "last_bar_received
        (fst (snd (load minute_live_params msk_provider noon_clock (feed_H, inbox [entry_H bar_t6]))))"
    by code_simp
  have v2: "\<not> live_mode feed_H"
    by code_simp
  note sw = load_mode_switch [of minute_live_params msk_provider noon_clock feed_H "inbox [entry_H bar_t6]"]
  note st = load_mode_switch [of minute_live_params msk_provider noon_clock feed_H "inbox [entry_H bar_doji]"]
  from sw h1 h2 v1 v2 have c1: "put_notifications
        (fst (snd (load minute_live_params msk_provider noon_clock (feed_H, inbox [entry_H bar_t6]))))
       = put_notifications feed_H @ [LIVE]
   \<and> live_mode
        (fst (snd (load minute_live_params msk_provider noon_clock (feed_H, inbox [entry_H bar_t6]))))"
    by (simp add: Let_def)
  from st h1 h3 have c2: "put_notifications
        (fst (snd (load minute_live_params msk_provider noon_clock (feed_H, inbox [entry_H bar_doji]))))
       = put_notifications feed_H"
    by simp
  from h1 h2 h3 c1 c2 show ?thesis by simp
qed

subsection \<open>C4: a historical-only feed from start to the end of its data\<close>

text \<open>
  C4, as stated, fails for the count of \<open>DISCONNECTED\<close>. The claim allows polls after the
  signal, and each of them puts the status again: on a history of two bars, five polls
  put it three times.
\<close>

theorem C4_disconnected_repeats_counterexample:
  "put_notifications
     (fst (final_state (feed_days [bar_d1, bar_d2], inbox [])
        (run day_history_params msk_provider
           (map Poll [noon_clock, noon_clock, noon_clock, noon_clock, noon_clock])
           (feed_days [bar_d1, bar_d2], inbox []))))
     = [DELAYED, CONNECTED, DISCONNECTED, DISCONNECTED, DISCONNECTED]
   \<and> count_list
        (put_notifications
           (fst (final_state (feed_days [bar_d1, bar_d2], inbox [])
              (run day_history_params msk_provider
                 (map Poll [noon_clock, noon_clock, noon_clock, noon_clock, noon_clock])
                 (feed_days [bar_d1, bar_d2], inbox [])))))
        DISCONNECTED = 3"
  by code_simp

text \<open>
  C4, amended. A historical-only feed has started and holds the \<open>n\<close> fetched bars that
  passed the session filter. Of \<open>n + 1\<close> polls, the first \<open>n\<close> return \<open>True\<close>; the \<open>i\<close>-th of
  them removes the head of the list and emits it: the output record holds that bar's
  opening datetime, its four converted prices, its volume and an open interest of 0. The
  last of the \<open>n + 1\<close> polls returns \<open>False\<close> and puts \<open>DISCONNECTED\<close>, which has then been
  put exactly once; \<open>stop\<close> puts nothing. No poll after that signal emits a bar: each
  returns \<open>False\<close> and puts \<open>DISCONNECTED\<close> once more.
\<close>

theorem history_feed_lifetime:
  assumes "\<not> live_bars p"
    and "start p prov fetched g (Data_init name) = (None, self)"
    and "length clks = length (history_bars self) + 1"
  shows "let tr = run p prov (map Poll clks) (self, store); fin = final_state (self, store) tr
         in history_bars self
              = map fst (filter (\<lambda>(b, clk). is_bar_valid p prov clk (Data_init name) b = Inr True) fetched)
          \<and> map fst tr
              = replicate (length (history_bars self)) (Returned (Some True)) @ [Returned (Some False)]
          \<and> list_all2 (\<lambda>l b. get_bar_open_date_time p prov b = Inr (lines_datetime l)
                              \<and> l = \<lparr>lines_datetime = lines_datetime l,
                                     lines_open = alor_price_to_price prov (bar_open b),
                                     lines_high = alor_price_to_price prov (bar_high b),
                                     lines_low = alor_price_to_price prov (bar_low b),
                                     lines_close = alor_price_to_price prov (bar_close b),
                                     lines_volume = bar_volume b,
                                     lines_openinterest = 0\<rparr>)
               (emitted tr) (history_bars self)
          \<and> (\<forall>i<length clks. history_bars (fst (snd (tr ! i))) = drop (Suc i) (history_bars self))
          \<and> put_notifications (fst fin) = put_notifications self @ [DISCONNECTED]
          \<and> count_list (put_notifications (fst fin)) DISCONNECTED = 1
          \<and> stop (fst fin) = fst fin
          \<and> (\<forall>later. emitted (run p prov (map Poll later) fin) = []
                 \<and> set (map fst (run p prov (map Poll later) fin)) \<subseteq> {Returned (Some False)}
                 \<and> put_notifications (fst (final_state fin (run p prov (map Poll later) fin)))
                     = put_notifications (fst fin) @ replicate (length later) DISCONNECTED)"
proof -
  note st = start_history_result [OF assms(1,2)]
  have opens: "\<forall>b\<in>set (history_bars self). \<exists>d. get_bar_open_date_time p prov b = Inr d"
    unfolding st(1) by (auto dest: is_bar_valid_open)
  note R = run_hist_complete [OF assms(1) opens assms(3), of store]
  let ?fin = "final_state (self, store) (run p prov (map Poll clks) (self, store))"
  have n: "put_notifications (fst ?fin) = put_notifications self @ [DISCONNECTED]"
    and h: "history_bars (fst ?fin) = []" and g: "guid (fst ?fin) = None"
    using R st(3) by simp_all
  have c: "count_list (put_notifications (fst ?fin)) DISCONNECTED = 1"
    by (simp add: n st(2))
  have s: "stop (fst ?fin) = fst ?fin"
    by (simp add: stop_def g)
  have x: "emitted (run p prov (map Poll later) ?fin) = []
       \<and> set (map fst (run p prov (map Poll later) ?fin)) \<subseteq> {Returned (Some False)}" for later
    using run_hist_exhausted [OF assms(1) h, of prov later "snd ?fin"] by simp
  have y: "put_notifications (fst (final_state ?fin (run p prov (map Poll later) ?fin)))
             = put_notifications (fst ?fin) @ replicate (length later) DISCONNECTED" for later
    using run_hist_exhausted_notifications [OF assms(1) h, of "snd ?fin" prov later]
    by simp
  from R st(1) n c s x y show ?thesis
    by (simp only: Let_def) blast
qed

theorem history_feed_lifetime_witness:
  "\<not> live_bars day_history_params
   \<and> start day_history_params msk_provider [(bar_d1, noon_clock), (bar_d_doji, noon_clock), (bar_d2, noon_clock)]
        [] (Data_init ''alor'')
       = (None, feed_days [bar_d1, bar_d_doji, bar_d2])
   \<and> length [noon_clock, noon_clock, noon_clock] = length (history_bars (feed_days [bar_d1, bar_d_doji, bar_d2])) + 1
   \<and> history_bars (feed_days [bar_d1, bar_d_doji, bar_d2]) = [bar_d1, bar_d2]
   \<and> map fst (run day_history_params msk_provider (map Poll [noon_clock, noon_clock, noon_clock])
                 (feed_days [bar_d1, bar_d_doji, bar_d2], inbox []))
       = [Returned (Some True), Returned (Some True), Returned (Some False)]
   \<and> emitted (run day_history_params msk_provider (map Poll [noon_clock, noon_clock, noon_clock])
                 (feed_days [bar_d1, bar_d_doji, bar_d2], inbox []))
       = [\<lparr>lines_datetime = Datetime 2024 1 1 (Time 0 0 0 0), lines_open = 100, lines_high = 105,
           lines_low = 95, lines_close = 102, lines_volume = 1000, lines_openinterest = 0\<rparr>,
          \<lparr>lines_datetime = Datetime 2024 1 2 (Time 0 0 0 0), lines_open = 100, lines_high = 105,
           lines_low = 95, lines_close = 102, lines_volume = 1000, lines_openinterest = 0\<rparr>]
   \<and> put_notifications (fst (final_state (feed_days [bar_d1, bar_d_doji, bar_d2], inbox [])
           (run day_history_params msk_provider (map Poll [noon_clock, noon_clock, noon_clock])
              (feed_days [bar_d1, bar_d_doji, bar_d2], inbox []))))
       = [DELAYED, CONNECTED, DISCONNECTED]
   \<and> count_list
        (put_notifications (fst (final_state (feed_days [bar_d1, bar_d_doji, bar_d2], inbox [])
           (run day_history_params msk_provider (map Poll [noon_clock, noon_clock, noon_clock])
              (feed_days [bar_d1, bar_d_doji, bar_d2], inbox [])))))
        DISCONNECTED = 1"
proof -
  have h1: "\<not> live_bars day_history_params"
    by (simp add: day_history_params_def)
  have h2: "start day_history_params msk_provider [(bar_d1, noon_clock), (bar_d_doji, noon_clock), (bar_d2, noon_clock)]
        [] (Data_init ''alor'')
       = (None, feed_days [bar_d1, bar_d_doji, bar_d2])"
    by code_simp
  have hb: "history_bars (feed_days [bar_d1, bar_d_doji, bar_d2]) = [bar_d1, bar_d2]"
    by code_simp
  have h3: "length [noon_clock, noon_clock, noon_clock] = length (history_bars (feed_days [bar_d1, bar_d_doji, bar_d2])) + 1"
    by (simp add: hb)
  have pn: "put_notifications (feed_days [bar_d1, bar_d_doji, bar_d2]) = [DELAYED, CONNECTED]"
    by code_simp
  have em: "emitted (run day_history_params msk_provider (map Poll [noon_clock, noon_clock, noon_clock])
                 (feed_days [bar_d1, bar_d_doji, bar_d2], inbox []))
       = [\<lparr>lines_datetime = Datetime 2024 1 1 (Time 0 0 0 0), lines_open = 100, lines_high = 105,
           lines_low = 95, lines_close = 102, lines_volume = 1000, lines_openinterest = 0\<rparr>,
          \<lparr>lines_datetime = Datetime 2024 1 2 (Time 0 0 0 0), lines_open = 100, lines_high = 105,
           lines_low = 95, lines_close = 102, lines_volume = 1000, lines_openinterest = 0\<rparr>]"
    by code_simp
  from history_feed_lifetime [OF h1 h2 h3, of "inbox []"] h1 h2 h3 hb pn em show ?thesis
    by (simp add: Let_def)
qed

subsection \<open>C5: one drain of the notification queue\<close>

text \<open>
  C5. The notifications \<open>xs\<close> have been put on an empty queue. One drain returns exactly
  \<open>xs\<close>, in the order they were put, and removes them. Whatever is put while the drain
  iterates (the batches of \<open>arriving\<close>, one before each \<open>popleft\<close>, of which the drain makes
  \<open>length xs + 1\<close>) is not returned: it is what the drain leaves in the queue, in order,
  for the next drain.
\<close>

theorem get_notifications_returns_queued:
  "get_notifications arriving (fold put_notification xs (st\<lparr>notifs := []\<rparr>))
     = Inr (xs, fold put_notification (concat (take (Suc (length xs)) arriving)) (st\<lparr>notifs := []\<rparr>))"
  using popleft_until_None_sentinel [of arriving xs "[]"]
  by (simp add: get_notifications_def fold_put_notification)

theorem get_notifications_returns_queued_witness:
  "get_notifications [[''live''], [], [''delayed'', ''live''], [''disconnected'']]
       (fold put_notification [''delayed'', ''connected''] \<lparr>notifs = [], new_bars = []\<rparr>)
     = Inr ([''delayed'', ''connected''],
            \<lparr>notifs = [Some ''live'', Some ''delayed'', Some ''live''], new_bars = []\<rparr>)"
  using get_notifications_returns_queued
    [where arriving = "[[''live''], [], [''delayed'', ''live''], [''disconnected'']]"
       and st = "\<lparr>notifs = [], new_bars = []\<rparr>" and xs = "[''delayed'', ''connected'']"]
  by (simp add: put_notification_def)

subsection \<open>C6: the close of a monthly bar\<close>

text \<open>
  C6. For the month time frame the close is \<open>datetime(year + (month + period - 1) div 12,
  (month + period - 1) mod 12 + 1, 1)\<close>, for every opening datetime. When that constructor
  returns, the result is midnight of day 1 of a month between 1 and 12 that lies exactly
  \<open>period\<close> months after the opening month; it returns unless the year leaves the range 1
  to 9999, where the constructor raises. An opening on 2024-01-31 closes on 2024-02-01 and
  one on 2024-12-15 closes on 2025-01-01.
\<close>

theorem month_close_date_time:
  assumes "timeframe p = Months"
  shows "get_bar_close_date_time p dt_open period
           = datetime_new (year dt_open + (month dt_open + period - 1) div 12)
               ((month dt_open + period - 1) mod 12 + 1) 1 0 0 0 0
       \<and> (\<forall>r. get_bar_close_date_time p dt_open period = Inr r \<longrightarrow>
             day r = 1 \<and> dt_time r = Time 0 0 0 0 \<and> 1 \<le> month r \<and> month r \<le> 12
             \<and> 12 * year r + month r = 12 * year dt_open + month dt_open + period)
       \<and> ((\<exists>r. get_bar_close_date_time p dt_open period = Inr r)
             = (1 \<le> year dt_open + (month dt_open + period - 1) div 12
                \<and> year dt_open + (month dt_open + period - 1) div 12 \<le> 9999))
       \<and> get_bar_close_date_time p (Datetime 2024 1 31 t) 1 = Inr (Datetime 2024 2 1 (Time 0 0 0 0))
       \<and> get_bar_close_date_time p (Datetime 2024 12 15 t) 1 = Inr (Datetime 2025 1 1 (Time 0 0 0 0))"
proof -
  have dim: "1 \<le> days_in_month y m" for y m
    by (simp add: days_in_month_def)
  have rng: "1 \<le> (month dt_open + period - 1) mod 12 + 1 \<and> (month dt_open + period - 1) mod 12 + 1 \<le> 12"
    using pos_mod_bound [of 12 "month dt_open + period - 1"] pos_mod_sign [of 12 "month dt_open + period - 1"]
    by simp
  have def: "get_bar_close_date_time p dt_open period
           = datetime_new (year dt_open + (month dt_open + period - 1) div 12)
               ((month dt_open + period - 1) mod 12 + 1) 1 0 0 0 0" for dt_open period
    using assms by (simp add: get_bar_close_date_time_def Let_def)
  have ex1: "get_bar_close_date_time p (Datetime 2024 1 31 t) 1 = Inr (Datetime 2024 2 1 (Time 0 0 0 0))"
    by (simp add: def datetime_new_def fits_c_int_def days_in_month_def)
  have ex2: "get_bar_close_date_time p (Datetime 2024 12 15 t) 1 = Inr (Datetime 2025 1 1 (Time 0 0 0 0))"
    by (simp add: def datetime_new_def fits_c_int_def days_in_month_def)
  have res: "day r = 1 \<and> dt_time r = Time 0 0 0 0 \<and> 1 \<le> month r \<and> month r \<le> 12
             \<and> 12 * year r + month r = 12 * year dt_open + month dt_open + period"
    if "get_bar_close_date_time p dt_open period = Inr r" for r
  proof -
    from that have r: "r = Datetime (year dt_open + (month dt_open + period - 1) div 12)
               ((month dt_open + period - 1) mod 12 + 1) 1 (Time 0 0 0 0)"
      unfolding def datetime_new_def by (simp split: if_splits)
    show ?thesis
      using rng month_index [of "year dt_open" "month dt_open" period] by (simp add: r)
  qed
  have ok: "(\<exists>r. get_bar_close_date_time p dt_open period = Inr r)
             = (1 \<le> year dt_open + (month dt_open + period - 1) div 12
                \<and> year dt_open + (month dt_open + period - 1) div 12 \<le> 9999)"
  proof -
    have small: "fits_c_int 1" "fits_c_int 0" "fits_c_int ((month dt_open + period - 1) mod 12 + 1)"
      using rng by (simp_all add: fits_c_int_def)
    have year: "fits_c_int y" if "1 \<le> y \<and> y \<le> 9999" for y
      using that by (simp add: fits_c_int_def)
    show ?thesis
      unfolding def datetime_new_def using rng dim small year by auto
  qed
  from def res ok ex1 ex2 show ?thesis by blast
qed

theorem month_close_date_time_witness:
  "timeframe month_params = Months
   \<and> get_bar_close_date_time month_params (Datetime 2024 1 31 (Time 10 30 0 0)) 1
       = Inr (Datetime 2024 2 1 (Time 0 0 0 0))
   \<and> get_bar_close_date_time month_params (Datetime 2024 12 15 (Time 10 30 0 0)) 1
       = Inr (Datetime 2025 1 1 (Time 0 0 0 0))"
proof -
  have h: "timeframe month_params = Months"
    by (simp add: month_params_def)
  from month_close_date_time [OF h, of _ _ "Time 10 30 0 0"] h show ?thesis
    by blast
qed

subsection \<open>C7: four-price doji bars\<close>

text \<open>
  C7, as stated, fails: a doji bar is not accepted merely because doji bars are let
  through. Here the session starts at noon, the doji bar opens at 11:00, and the filter
  rejects it with the flag set.
\<close>

theorem C7_doji_outside_session_counterexample:
  "bar_high bar_doji = bar_low bar_doji
   \<and> four_price_doji late_session_doji_params
   \<and> is_bar_valid late_session_doji_params msk_provider noon_clock feed_H bar_doji = Inr False"
  by code_simp

text \<open>
  C7, amended. For a bar with \<open>high = low\<close>, all else held constant: with the flag off the
  filter never accepts the bar, and rejects it whenever the opening and closing times can
  be computed; with the flag on the filter accepts the bar exactly when the three other
  rules pass (the opening is not before the session start, the close is not after the
  session end, and the bar is not still forming while the session is open).
\<close>

theorem doji_filter:
  assumes "bar_high b = bar_low b"
  shows "is_bar_valid (p\<lparr>four_price_doji := False\<rparr>) prov clk self b \<noteq> Inr True
       \<and> (\<forall>dt_open dt_close.
             get_bar_open_date_time p prov b = Inr dt_open
             \<and> get_bar_close_date_time p dt_open 1 = Inr dt_close \<longrightarrow>
             is_bar_valid (p\<lparr>four_price_doji := False\<rparr>) prov clk self b = Inr False)
       \<and> (\<forall>dt_open dt_close now.
             get_bar_open_date_time p prov b = Inr dt_open
             \<and> get_bar_close_date_time p dt_open 1 = Inr dt_close
             \<and> get_alor_date_time_now prov clk self = Inr now \<longrightarrow>
             is_bar_valid (p\<lparr>four_price_doji := True\<rparr>) prov clk self b
               = Inr (\<not> (sessionstart p \<noteq> time_min \<and> time_less (dt_time dt_open) (sessionstart p))
                      \<and> \<not> (sessionend p \<noteq> sessionend_unset \<and> time_less (sessionend p) (dt_time dt_close))
                      \<and> \<not> (dt_less now dt_close \<and> time_less (dt_time now) (sessionend p))))"
proof (intro conjI allI impI)
  show "is_bar_valid (p\<lparr>four_price_doji := False\<rparr>) prov clk self b \<noteq> Inr True"
  proof (cases "get_bar_open_date_time p prov b")
    case (Inl e)
    then show ?thesis by (simp add: is_bar_valid_def open_close_ignore_doji_flag)
  next
    case (Inr dt_open)
    then show ?thesis
      using assms
      by (cases "get_bar_close_date_time p dt_open 1")
        (simp_all add: is_bar_valid_def open_close_ignore_doji_flag)
  qed
next
  fix dt_open dt_close
  assume "get_bar_open_date_time p prov b = Inr dt_open
             \<and> get_bar_close_date_time p dt_open 1 = Inr dt_close"
  then show "is_bar_valid (p\<lparr>four_price_doji := False\<rparr>) prov clk self b = Inr False"
    using assms by (simp add: is_bar_valid_def open_close_ignore_doji_flag)
next
  fix dt_open dt_close now
  assume "get_bar_open_date_time p prov b = Inr dt_open
             \<and> get_bar_close_date_time p dt_open 1 = Inr dt_close
             \<and> get_alor_date_time_now prov clk self = Inr now"
  then show "is_bar_valid (p\<lparr>four_price_doji := True\<rparr>) prov clk self b
               = Inr (\<not> (sessionstart p \<noteq> time_min \<and> time_less (dt_time dt_open) (sessionstart p))
                      \<and> \<not> (sessionend p \<noteq> sessionend_unset \<and> time_less (sessionend p) (dt_time dt_close))
                      \<and> \<not> (dt_less now dt_close \<and> time_less (dt_time now) (sessionend p)))"
    by (simp add: is_bar_valid_def open_close_ignore_doji_flag)
qed

theorem doji_filter_witness:
  "bar_high bar_doji = bar_low bar_doji
   \<and> get_bar_open_date_time minute_live_params msk_provider bar_doji
       = Inr (Datetime 2024 1 1 (Time 11 0 0 0))
   \<and> get_bar_close_date_time minute_live_params (Datetime 2024 1 1 (Time 11 0 0 0)) 1
       = Inr (Datetime 2024 1 1 (Time 11 1 0 0))
   \<and> get_alor_date_time_now msk_provider noon_clock feed_H = Inr (Datetime 2024 6 1 (Time 15 0 0 0))
   \<and> is_bar_valid (minute_live_params\<lparr>four_price_doji := False\<rparr>) msk_provider noon_clock feed_H bar_doji
       = Inr False
   \<and> is_bar_valid (minute_live_params\<lparr>four_price_doji := True\<rparr>) msk_provider noon_clock feed_H bar_doji
       = Inr True"
proof -
  have h1: "bar_high bar_doji = bar_low bar_doji"
    by (simp add: bar_doji_def)
  have h2: "get_bar_open_date_time minute_live_params msk_provider bar_doji
       = Inr (Datetime 2024 1 1 (Time 11 0 0 0))"
    by code_simp
  have h3: "get_bar_close_date_time minute_live_params (Datetime 2024 1 1 (Time 11 0 0 0)) 1
       = Inr (Datetime 2024 1 1 (Time 11 1 0 0))"
    by code_simp
  have h4: "get_alor_date_time_now msk_provider noon_clock feed_H = Inr (Datetime 2024 6 1 (Time 15 0 0 0))"
    by code_simp
  have v: "\<not> (sessionstart minute_live_params \<noteq> time_min
              \<and> time_less (dt_time (Datetime 2024 1 1 (Time 11 0 0 0))) (sessionstart minute_live_params))
         \<and> \<not> (sessionend minute_live_params \<noteq> sessionend_unset
              \<and> time_less (sessionend minute_live_params) (dt_time (Datetime 2024 1 1 (Time 11 1 0 0))))
         \<and> \<not> (dt_less (Datetime 2024 6 1 (Time 15 0 0 0)) (Datetime 2024 1 1 (Time 11 1 0 0))
              \<and> time_less (dt_time (Datetime 2024 6 1 (Time 15 0 0 0))) (sessionend minute_live_params))"
    by code_simp
  note d = doji_filter [OF h1, of minute_live_params msk_provider noon_clock feed_H]
  from d h2 h3 have c1: "is_bar_valid (minute_live_params\<lparr>four_price_doji := False\<rparr>) msk_provider noon_clock feed_H bar_doji
       = Inr False"
    by blast
  from d h2 h3 h4 have "is_bar_valid (minute_live_params\<lparr>four_price_doji := True\<rparr>) msk_provider noon_clock feed_H bar_doji
       = Inr (\<not> (sessionstart minute_live_params \<noteq> time_min
              \<and> time_less (dt_time (Datetime 2024 1 1 (Time 11 0 0 0))) (sessionstart minute_live_params))
         \<and> \<not> (sessionend minute_live_params \<noteq> sessionend_unset
              \<and> time_less (sessionend minute_live_params) (dt_time (Datetime 2024 1 1 (Time 11 1 0 0))))
         \<and> \<not> (dt_less (Datetime 2024 6 1 (Time 15 0 0 0)) (Datetime 2024 1 1 (Time 11 1 0 0))
              \<and> time_less (dt_time (Datetime 2024 6 1 (Time 15 0 0 0))) (sessionend minute_live_params)))"
    by blast
  with v have c2: "is_bar_valid (minute_live_params\<lparr>four_price_doji := True\<rparr>) msk_provider noon_clock feed_H bar_doji
       = Inr True"
    by simp
  from h1 h2 h3 h4 c1 c2 show ?thesis by blast
qed

subsection \<open>C8: time frames as durations\<close>

text \<open>
  C8, as stated, fails for the minute time frame (and likewise for seconds): a duration
  has at most 999999999 days, and for a billion days' worth of minutes
  \<open>timedelta(minutes=compression)\<close> raises \<open>OverflowError\<close>.
\<close>

theorem C8_minutes_overflow_counterexample:
  "timeframe_to_timedelta Minutes 1440000000000 = Inl OverflowError"
  by (simp add: timeframe_to_timedelta_def td_minutes)

text \<open>
  C8, amended. For months and years the conversion raises \<open>NotImplementedError\<close>, whatever
  the compression. For days it returns one day and for weeks seven days. For minutes and
  seconds it returns the duration of \<open>compression\<close> minutes or seconds whenever that
  duration is within the range of \<open>timedelta\<close>, and otherwise the constructor of the
  duration raises \<open>OverflowError\<close>. Every other time frame is converted as seconds are.
  For no time frame other than months and years does it raise \<open>NotImplementedError\<close>.
\<close>

theorem timeframe_to_timedelta_results:
  "timeframe_to_timedelta Months c = Inl NotImplementedError
   \<and> timeframe_to_timedelta Years c = Inl NotImplementedError
   \<and> timeframe_to_timedelta Days c = Inr (Timedelta 1 0 0)
   \<and> timeframe_to_timedelta Weeks c = Inr (Timedelta 7 0 0)
   \<and> (- 1439999998560 \<le> c \<and> c < 1440000000000 \<longrightarrow>
        timeframe_to_timedelta Minutes c = Inr (Timedelta (c div 1440) (c mod 1440 * 60) 0))
   \<and> (\<not> (- 1439999998560 \<le> c \<and> c < 1440000000000) \<longrightarrow>
        timeframe_to_timedelta Minutes c = Inl OverflowError)
   \<and> (- 86399999913600 \<le> c \<and> c < 86400000000000 \<longrightarrow>
        timeframe_to_timedelta Seconds c = Inr (Timedelta (c div 86400) (c mod 86400) 0))
   \<and> (\<not> (- 86399999913600 \<le> c \<and> c < 86400000000000) \<longrightarrow>
        timeframe_to_timedelta Seconds c = Inl OverflowError)
   \<and> (tf \<noteq> Days \<and> tf \<noteq> Weeks \<and> tf \<noteq> Months \<and> tf \<noteq> Years \<and> tf \<noteq> Minutes \<longrightarrow>
        timeframe_to_timedelta tf c = timeframe_to_timedelta Seconds c)
   \<and> (tf \<noteq> Months \<and> tf \<noteq> Years \<longrightarrow>
        timeframe_to_timedelta tf c \<noteq> Inl NotImplementedError)"
proof (intro conjI impI)
  show "timeframe_to_timedelta Months c = Inl NotImplementedError"
    and "timeframe_to_timedelta Years c = Inl NotImplementedError"
    by (simp_all add: timeframe_to_timedelta_def)
  show "timeframe_to_timedelta Days c = Inr (Timedelta 1 0 0)"
    by (simp add: timeframe_to_timedelta_def td_one_day)
  show "timeframe_to_timedelta Weeks c = Inr (Timedelta 7 0 0)"
    by (simp add: timeframe_to_timedelta_def td_one_week)
next
  assume "- 1439999998560 \<le> c \<and> c < 1440000000000"
  then show "timeframe_to_timedelta Minutes c = Inr (Timedelta (c div 1440) (c mod 1440 * 60) 0)"
    by (simp add: timeframe_to_timedelta_def td_minutes)
next
  assume "\<not> (- 1439999998560 \<le> c \<and> c < 1440000000000)"
  then show "timeframe_to_timedelta Minutes c = Inl OverflowError"
    by (simp add: timeframe_to_timedelta_def td_minutes)
next
  assume "- 86399999913600 \<le> c \<and> c < 86400000000000"
  then show "timeframe_to_timedelta Seconds c = Inr (Timedelta (c div 86400) (c mod 86400) 0)"
    by (simp add: timeframe_to_timedelta_def td_seconds)
next
  assume "\<not> (- 86399999913600 \<le> c \<and> c < 86400000000000)"
  then show "timeframe_to_timedelta Seconds c = Inl OverflowError"
    by (simp add: timeframe_to_timedelta_def td_seconds)
next
  assume "tf \<noteq> Days \<and> tf \<noteq> Weeks \<and> tf \<noteq> Months \<and> tf \<noteq> Years \<and> tf \<noteq> Minutes"
  then show "timeframe_to_timedelta tf c = timeframe_to_timedelta Seconds c"
    by (simp add: timeframe_to_timedelta_def)
next
  assume "tf \<noteq> Months \<and> tf \<noteq> Years"
  then show "timeframe_to_timedelta tf c \<noteq> Inl NotImplementedError"
    by (simp add: timeframe_to_timedelta_def td_minutes td_seconds td_one_day td_one_week)
qed

theorem timeframe_to_timedelta_results_witness:
  "- 1439999998560 \<le> (5::int) \<and> (5::int) < 1440000000000
   \<and> timeframe_to_timedelta Minutes 5 = Inr (Timedelta 0 300 0)
   \<and> - 86399999913600 \<le> (90000::int) \<and> (90000::int) < 86400000000000
   \<and> timeframe_to_timedelta Seconds 90000 = Inr (Timedelta 1 3600 0)
   \<and> \<not> (- 1439999998560 \<le> (- 1439999998561::int) \<and> (- 1439999998561::int) < 1440000000000)
   \<and> timeframe_to_timedelta Minutes (- 1439999998561) = Inl OverflowError
   \<and> \<not> (- 86399999913600 \<le> (86400000000000::int) \<and> (86400000000000::int) < 86400000000000)
   \<and> timeframe_to_timedelta Seconds 86400000000000 = Inl OverflowError
   \<and> Ticks \<noteq> Days \<and> Ticks \<noteq> Weeks \<and> Ticks \<noteq> Months \<and> Ticks \<noteq> Years \<and> Ticks \<noteq> Minutes
   \<and> timeframe_to_timedelta Ticks 90000 = Inr (Timedelta 1 3600 0)
   \<and> timeframe_to_timedelta Days 5 = Inr (Timedelta 1 0 0)
   \<and> timeframe_to_timedelta Weeks 5 = Inr (Timedelta 7 0 0)
   \<and> timeframe_to_timedelta Ticks 5 \<noteq> Inl NotImplementedError
   \<and> timeframe_to_timedelta Months 5 = Inl NotImplementedError
   \<and> timeframe_to_timedelta Years 5 = Inl NotImplementedError"
  using timeframe_to_timedelta_results [of 5 Ticks] timeframe_to_timedelta_results [of 90000 Ticks]
    timeframe_to_timedelta_results [of "- 1439999998561" Ticks]
    timeframe_to_timedelta_results [of 86400000000000 Ticks]
  by simp

subsection \<open>C9: which attributes a poll may change\<close>

text \<open>
  C9. A live-mode poll that claims an inbox entry assigns \<open>last_bar_received\<close> whatever the
  poll then returns or raises: the value is true exactly when the claimed entry was the
  only one of this feed. A poll, in either mode, that does not emit a bar leaves
  \<open>dt_last_open\<close> and \<open>live_mode\<close> as they were. A live-mode poll that finds no entry of
  this feed changes nothing at all.
\<close>

theorem load_frame:
  "(live_bars p \<and> filter (is_own self) (new_bars store) \<noteq> [] \<longrightarrow>
      last_bar_received (fst (snd (load p prov clk (self, store))))
        = (length (filter (is_own self) (new_bars store)) = 1))
   \<and> (fst (load p prov clk (self, store)) \<noteq> Returned (Some True) \<longrightarrow>
        dt_last_open (fst (snd (load p prov clk (self, store)))) = dt_last_open self
        \<and> live_mode (fst (snd (load p prov clk (self, store)))) = live_mode self)
   \<and> (live_bars p \<and> filter (is_own self) (new_bars store) = [] \<longrightarrow>
        load p prov clk (self, store) = (Returned None, self, store))"
proof (intro conjI impI)
  assume a: "live_bars p \<and> filter (is_own self) (new_bars store) \<noteq> []"
  then obtain nb others where f: "filter (is_own self) (new_bars store) = nb # others"
    by (cases "filter (is_own self) (new_bars store)") auto
  with a load_live_store(2) [of p self store nb others prov clk]
  show "last_bar_received (fst (snd (load p prov clk (self, store))))
        = (length (filter (is_own self) (new_bars store)) = 1)"
    by simp
next
  assume "fst (load p prov clk (self, store)) \<noteq> Returned (Some True)"
  then show "dt_last_open (fst (snd (load p prov clk (self, store)))) = dt_last_open self"
    and "live_mode (fst (snd (load p prov clk (self, store)))) = live_mode self"
    using load_no_emit_frame [of p prov clk self store] by simp_all
next
  assume "live_bars p \<and> filter (is_own self) (new_bars store) = []"
  then show "load p prov clk (self, store) = (Returned None, self, store)"
    by (simp add: load_live_none)
qed


theorem load_frame_witness:
  "live_bars minute_live_params
   \<and> filter (is_own feed_H) (new_bars (inbox [entry_H bar_doji])) \<noteq> []
   \<and> fst (load minute_live_params msk_provider noon_clock (feed_H, inbox [entry_H bar_doji]))
       = Returned None
   \<and> \<not> last_bar_received feed_H
   \<and> last_bar_received
        (fst (snd (load minute_live_params msk_provider noon_clock (feed_H, inbox [entry_H bar_doji]))))
   \<and> dt_last_open
        (fst (snd (load minute_live_params msk_provider noon_clock (feed_H, inbox [entry_H bar_doji]))))
       = dt_last_open feed_H
   \<and> live_mode
        (fst (snd (load minute_live_params msk_provider noon_clock (feed_H, inbox [entry_H bar_doji]))))
       = live_mode feed_H
   \<and> filter (is_own feed_H) (new_bars (inbox [])) = []
   \<and> load minute_live_params msk_provider noon_clock (feed_H, inbox [])
       = (Returned None, feed_H, inbox [])"
proof -
  have h1: "live_bars minute_live_params"
    by (simp add: minute_live_params_def)
  have h2: "filter (is_own feed_H) (new_bars (inbox [entry_H bar_doji])) = [entry_H bar_doji]"
    by code_simp
  have h3: "fst (load minute_live_params msk_provider noon_clock (feed_H, inbox [entry_H bar_doji]))
       = Returned None"
    by code_simp
  have h4: "\<not> last_bar_received feed_H"
    by code_simp
  have h5: "filter (is_own feed_H) (new_bars (inbox [])) = []"
    by (simp add: inbox_def)
  note a = load_frame [of minute_live_params feed_H "inbox [entry_H bar_doji]" msk_provider noon_clock]
  note b = load_frame [of minute_live_params feed_H "inbox []" msk_provider noon_clock]
  from a h1 h2 h3 have c1: "last_bar_received
        (fst (snd (load minute_live_params msk_provider noon_clock (feed_H, inbox [entry_H bar_doji]))))
   \<and> dt_last_open
        (fst (snd (load minute_live_params msk_provider noon_clock (feed_H, inbox [entry_H bar_doji]))))
       = dt_last_open feed_H
   \<and> live_mode
        (fst (snd (load minute_live_params msk_provider noon_clock (feed_H, inbox [entry_H bar_doji]))))
       = live_mode feed_H"
    by simp
  from b h1 h5 have c2: "load minute_live_params msk_provider noon_clock (feed_H, inbox [])
       = (Returned None, feed_H, inbox [])"
    by simp
  from h1 h2 h3 h4 h5 c1 c2 show ?thesis by simp
qed

subsection \<open>C10: the statuses of a historical-only feed\<close>



end
